theory Spec2Isabelle
  imports Complex_Main "HOL-Library.AList"
begin

section \<open>Numbers held in the tables\<close>

text \<open>
  The tables of \<^verbatim>\<open>main.py\<close> are pandas frames of numbers. A cell is an extended real: a
  finite value, one of the two infinities, or NaN. Rounding, overflow and the sign of
  zero are left out: a finite result is the exact real result.
\<close>

datatype fval = Fin real | PInf | NInf | NaN

text \<open>
  A row read from a balance sheet is of dtype float64, or of dtype object when the
  provider has built the frame from Python numbers. The two differ where main.py divides:
  on float64 a division by zero gives an infinity (or NaN for 0/0) and nothing is
  raised, as numpy does, while on object the division is Python's own and raises
  ZeroDivisionError.
\<close>

datatype dtype = Float64 | Object

type_synonym period = nat
type_synonym series = "fval list"

fun fdiv :: "fval \<Rightarrow> fval \<Rightarrow> fval" where
  "fdiv NaN _ = NaN"
| "fdiv _ NaN = NaN"
| "fdiv (Fin a) (Fin b) =
     (if b \<noteq> 0 then Fin (a / b) else if a = 0 then NaN else if 0 < a then PInf else NInf)"
| "fdiv (Fin a) PInf = Fin 0"
| "fdiv (Fin a) NInf = Fin 0"
| "fdiv PInf (Fin b) = (if 0 \<le> b then PInf else NInf)"
| "fdiv NInf (Fin b) = (if 0 \<le> b then NInf else PInf)"
| "fdiv PInf PInf = NaN"
| "fdiv PInf NInf = NaN"
| "fdiv NInf PInf = NaN"
| "fdiv NInf NInf = NaN"

fun fadd :: "fval \<Rightarrow> fval \<Rightarrow> fval" where
  "fadd NaN _ = NaN"
| "fadd _ NaN = NaN"
| "fadd (Fin a) (Fin b) = Fin (a + b)"
| "fadd (Fin a) PInf = PInf"
| "fadd (Fin a) NInf = NInf"
| "fadd PInf (Fin b) = PInf"
| "fadd NInf (Fin b) = NInf"
| "fadd PInf PInf = PInf"
| "fadd NInf NInf = NInf"
| "fadd PInf NInf = NaN"
| "fadd NInf PInf = NaN"

fun fneg :: "fval \<Rightarrow> fval" where
  "fneg NaN = NaN"
| "fneg (Fin a) = Fin (- a)"
| "fneg PInf = NInf"
| "fneg NInf = PInf"

definition fsub :: "fval \<Rightarrow> fval \<Rightarrow> fval" where
  "fsub x y = fadd x (fneg y)"

text \<open>The comparisons \<^verbatim>\<open>x < y\<close> and \<^verbatim>\<open>x > y\<close>: false whenever an operand is NaN.\<close>

fun flt :: "fval \<Rightarrow> fval \<Rightarrow> bool" where
  "flt NaN _ = False"
| "flt _ NaN = False"
| "flt (Fin a) (Fin b) = (a < b)"
| "flt (Fin a) PInf = True"
| "flt (Fin a) NInf = False"
| "flt PInf _ = False"
| "flt NInf (Fin b) = True"
| "flt NInf PInf = True"
| "flt NInf NInf = False"

definition fgt :: "fval \<Rightarrow> fval \<Rightarrow> bool" where
  "fgt x y = flt y x"

fun isnan :: "fval \<Rightarrow> bool" where
  "isnan NaN = True"
| "isnan _ = False"

section \<open>Frames, errors and the analysis object\<close>

text \<open>
  A balance sheet is a frame whose rows are named line items and whose columns are the
  reporting periods, most recent first. Row labels are looked up by name and are taken
  to be unique, as are the period labels; a row holds one value per column, and
  \<open>dtype\<close> is the dtype of the rows. A ratio table has the periods as its index and the
  four ratio columns; the arithmetic that the report does on its columns later is taken
  to be float64 arithmetic. A dictionary is an association list in insertion order, updated in place
  when the key is present.
\<close>

record frame =
  columns :: "period list"
  rows :: "(string \<times> series) list"
  dtype :: dtype

record ratio_table =
  r_index :: "period list"
  Current_Ratio :: series
  Quick_Ratio :: series
  Debt_to_Assets :: series
  Equity_Multiplier :: series

datatype error =
    KeyError string
  | KeyError_period period
  | IndexError
  | ZeroDivisionError
  | External string

text \<open>What the program hands to the plotting backend, and what it writes to disk.\<close>

datatype chart =
    LineChart "(string \<times> period list \<times> series) list"
  | RadarChart "(string \<times> series) list"
  | Pie "(string \<times> fval) list"
  | PieCharts string period "(string \<times> fval) list" "(string \<times> fval) list"

text \<open>
  A report is the sequence of fragments appended by \<^verbatim>\<open>report += ...\<close>. Literal text is
  \<open>Text\<close>; what an f-string interpolates stays symbolic, tagged with its kind: a company
  name, the generation time stamp, a number with its format (\<^verbatim>\<open>:.2f\<close> or \<^verbatim>\<open>:.2%\<close>), a
  date, the text of an exception.
\<close>

datatype piece =
    Text string
  | Name string
  | Stamp string
  | Fmt2f fval
  | FmtPct fval
  | Date period
  | Err error

datatype artifact = Image chart | Document "piece list"

datatype out =
    Print string
  | PrintErr string error
  | PrintItems "string list"
  | PrintTrace error

record state =
  companies :: "string list"
  balance_sheets :: "(string \<times> frame) list"
  ratios :: "(string \<times> ratio_table) list"
  base_path :: string
  stdout :: "out list"
  files :: "(string \<times> artifact) list"

text \<open>
  \<^verbatim>\<open>os.path.join\<close> on the relative names used here, and the object built by
  \<^verbatim>\<open>__init__\<close> in a world where nothing has been printed or written yet. The two
  output directories are taken to exist.
\<close>

definition join :: "string \<Rightarrow> string \<Rightarrow> string" where
  "join a b = a @ ''/'' @ b"

definition init :: "string \<Rightarrow> string list \<Rightarrow> state" where
  "init base cs =
     \<lparr>companies = cs, balance_sheets = [], ratios = [], base_path = base,
      stdout = [], files = []\<rparr>"

definition output_dir :: "state \<Rightarrow> string" where
  "output_dir st = join (base_path st) ''output''"

definition plots_dir :: "state \<Rightarrow> string" where
  "plots_dir st = join (output_dir st) ''plots''"

definition get_output_path :: "state \<Rightarrow> string \<Rightarrow> string" where
  "get_output_path st filename = join (output_dir st) filename"

definition get_plot_path :: "state \<Rightarrow> string \<Rightarrow> string" where
  "get_plot_path st filename = join (plots_dir st) filename"

definition say :: "out \<Rightarrow> state \<Rightarrow> state" where
  "say x st = st\<lparr>stdout := stdout st @ [x]\<rparr>"

definition write_file :: "string \<Rightarrow> artifact \<Rightarrow> state \<Rightarrow> state" where
  "write_file p a st = st\<lparr>files := AList.update p a (files st)\<rparr>"

section \<open>Frame access\<close>

text \<open>Sequencing of steps that may raise: the first error ends the sequence.\<close>

definition bind_err :: "error + 'a \<Rightarrow> ('a \<Rightarrow> error + 'b) \<Rightarrow> error + 'b" where
  "bind_err r f = (case r of Inl e \<Rightarrow> Inl e | Inr x \<Rightarrow> f x)"

text \<open>\<^verbatim>\<open>bs.empty\<close>: one of the two axes has length 0.\<close>

definition empty_frame :: "frame \<Rightarrow> bool" where
  "empty_frame bs = (rows bs = [] \<or> columns bs = [])"

definition index_labels :: "frame \<Rightarrow> string list" where
  "index_labels bs = map fst (rows bs)"

text \<open>\<^verbatim>\<open>bs.loc[label]\<close>: the row, or KeyError when the label is not in the index.\<close>

definition loc :: "frame \<Rightarrow> string \<Rightarrow> error + series" where
  "loc bs l = (case map_of (rows bs) l of None \<Rightarrow> Inl (KeyError l) | Some vs \<Rightarrow> Inr vs)"

text \<open>\<^verbatim>\<open>series[label]\<close> on a series indexed by periods.\<close>

definition at_period :: "period list \<Rightarrow> series \<Rightarrow> period \<Rightarrow> error + fval" where
  "at_period idx vs p =
     (case map_of (zip idx vs) p of None \<Rightarrow> Inl (KeyError_period p) | Some v \<Rightarrow> Inr v)"

text \<open>\<^verbatim>\<open>index[0]\<close>: IndexError on an empty index.\<close>

definition first_label :: "'a list \<Rightarrow> error + 'a" where
  "first_label xs = (case xs of [] \<Rightarrow> Inl IndexError | x # _ \<Rightarrow> Inr x)"

section \<open>Data fetcher\<close>

text \<open>
  The data provider is outside the program: \<open>src company\<close> is what
  \<^verbatim>\<open>yf.Ticker(company).quarterly_balance_sheet\<close> gives, a frame or a raised error.
\<close>

definition fetch_one :: "(string \<Rightarrow> error + frame) \<Rightarrow> string \<Rightarrow> state \<Rightarrow> state" where
  "fetch_one src company st =
     (case src company of
        Inl e \<Rightarrow> say (PrintErr (''Error fetching data for '' @ company @ '': '') e) st
      | Inr bs \<Rightarrow>
          if empty_frame bs
          then say (Print (''Warning: Unable to fetch data for '' @ company)) st
          else
            (let st1 = say (Print (''\<newline>'' @ company @ '' Balance Sheet Available Items:'')) st;
                 st2 = say (PrintItems (index_labels bs)) st1
             in st2\<lparr>balance_sheets := AList.update company bs (balance_sheets st2)\<rparr>))"

definition fetch_data :: "(string \<Rightarrow> error + frame) \<Rightarrow> state \<Rightarrow> state" where
  "fetch_data src st = fold (fetch_one src) (companies st) st"

section \<open>Ratio calculator\<close>

text \<open>
  \<^verbatim>\<open>xs / ys\<close> on two rows of the same frame, elementwise. On rows of dtype object a
  divisor equal to 0 raises, whatever the dividend; on float64 nothing raises.
\<close>

definition truediv :: "dtype \<Rightarrow> series \<Rightarrow> series \<Rightarrow> error + series" where
  "truediv t xs ys =
     (if t = Object \<and> Fin 0 \<in> set (map snd (zip xs ys)) then Inl ZeroDivisionError
      else Inr (map2 fdiv xs ys))"

text \<open>
  The body of the \<^verbatim>\<open>try\<close> block for one company, up to the assignment to
  \<^verbatim>\<open>self.ratios[company]\<close>. The row lookups and the divisions raise in the order of the
  source; the subtraction is elementwise and does not raise. Without an Inventory row
  the scalar 0 is subtracted from every entry.
\<close>

definition less_inventory :: "frame \<Rightarrow> series \<Rightarrow> series" where
  "less_inventory bs current_assets =
     (case map_of (rows bs) ''Inventory'' of
        Some inventory \<Rightarrow> map2 fsub current_assets inventory
      | None \<Rightarrow> map (\<lambda>x. fsub x (Fin 0)) current_assets)"

definition company_ratios :: "frame \<Rightarrow> error + ratio_table" where
  "company_ratios bs =
     bind_err (loc bs ''Current Assets'') (\<lambda>current_assets.
     bind_err (loc bs ''Current Liabilities'') (\<lambda>current_liabilities.
     bind_err (truediv (dtype bs) current_assets current_liabilities) (\<lambda>current_ratio.
     bind_err (truediv (dtype bs) (less_inventory bs current_assets) current_liabilities)
       (\<lambda>quick_ratio.
     bind_err (loc bs ''Total Assets'') (\<lambda>total_assets.
     bind_err (loc bs ''Total Liabilities Net Minority Interest'') (\<lambda>total_liabilities.
     bind_err (truediv (dtype bs) total_liabilities total_assets) (\<lambda>debt_to_assets.
     bind_err (loc bs ''Stockholders Equity'') (\<lambda>stockholders_equity.
     bind_err (truediv (dtype bs) total_assets stockholders_equity) (\<lambda>equity_multiplier.
       Inr \<lparr>r_index = columns bs,
            Current_Ratio = current_ratio,
            Quick_Ratio = quick_ratio,
            Debt_to_Assets = debt_to_assets,
            Equity_Multiplier = equity_multiplier\<rparr>)))))))))"

definition calc_one :: "string \<times> frame \<Rightarrow> state \<Rightarrow> state" where
  "calc_one kv st =
     (case kv of (company, bs) \<Rightarrow>
        (case company_ratios bs of
           Inr r \<Rightarrow>
             say (Print (''Financial ratios calculation completed for '' @ company))
               (st\<lparr>ratios := AList.update company r (ratios st)\<rparr>)
         | Inl e \<Rightarrow>
             say (PrintItems (index_labels bs))
               (say (Print ''Available balance sheet items:'')
                  (say (PrintErr (''Error calculating ratios for '' @ company @ '': '') e) st))))"

definition calculate_financial_ratios :: "state \<Rightarrow> state" where
  "calculate_financial_ratios st = fold calc_one (balance_sheets st) st"

section \<open>Chart renderer\<close>

text \<open>
  The plotting backend is outside the program. \<open>backend c\<close> tells whether drawing or saving
  \<open>c\<close> raises (\<open>Some e\<close>) or succeeds (\<open>None\<close>); for the line chart and the radar chart
  it is asked once, about the finished chart. A function that can raise returns its
  result or the raised error, together with the state reached. A file is written only
  when nothing was raised.
\<close>

definition line_series :: "state \<Rightarrow> (string \<times> period list \<times> series) list" where
  "line_series st =
     concat (map (\<lambda>company.
        (case map_of (ratios st) company of
           Some r \<Rightarrow> [(company, r_index r, Current_Ratio r)]
         | None \<Rightarrow> [])) (companies st))"

definition plot_current_ratio_comparison ::
  "(chart \<Rightarrow> error option) \<Rightarrow> state \<Rightarrow> (error + string) \<times> state" where
  "plot_current_ratio_comparison backend st =
     (let c = LineChart (line_series st);
          plot_path = get_plot_path st ''current_ratio_comparison.png''
      in case backend c of
           Some e \<Rightarrow> (Inl e, st)
         | None \<Rightarrow> (Inr plot_path, write_file plot_path (Image c) st))"

definition available_companies :: "state \<Rightarrow> string list" where
  "available_companies st = filter (\<lambda>company. map_of (ratios st) company \<noteq> None) (companies st)"

text \<open>
  The five values of one polygon: the four ratios of a company read at \<open>latest_date\<close> by
  label, then the first one again to close the polygon.
\<close>

definition radar_values :: "ratio_table \<Rightarrow> period \<Rightarrow> error + series" where
  "radar_values r latest_date =
     bind_err (at_period (r_index r) (Debt_to_Assets r) latest_date) (\<lambda>da.
     bind_err (at_period (r_index r) (Current_Ratio r) latest_date) (\<lambda>cr.
     bind_err (at_period (r_index r) (Quick_Ratio r) latest_date) (\<lambda>qr.
     bind_err (at_period (r_index r) (Equity_Multiplier r) latest_date) (\<lambda>em.
       Inr ([da, cr, qr, em] @ [da])))))"

fun radar_polygons ::
  "(string \<times> ratio_table) list \<Rightarrow> period \<Rightarrow> string list \<Rightarrow> error + (string \<times> series) list" where
  "radar_polygons rs latest_date [] = Inr []"
| "radar_polygons rs latest_date (company # cs) =
     (case map_of rs company of
        None \<Rightarrow> Inl (KeyError company)
      | Some r \<Rightarrow>
          bind_err (radar_values r latest_date) (\<lambda>vs.
          bind_err (radar_polygons rs latest_date cs) (\<lambda>ps. Inr ((company, vs) # ps))))"

definition radar_latest_date :: "state \<Rightarrow> error + period" where
  "radar_latest_date st =
     (case available_companies st of
        [] \<Rightarrow> Inl IndexError
      | company # _ \<Rightarrow>
          (case map_of (ratios st) company of
             None \<Rightarrow> Inl (KeyError company)
           | Some r \<Rightarrow> first_label (r_index r)))"

text \<open>The loop over the available companies, for a given \<open>latest_date\<close>.\<close>

definition radar_chart_at :: "state \<Rightarrow> period \<Rightarrow> error + chart" where
  "radar_chart_at st latest_date =
     bind_err (radar_polygons (ratios st) latest_date (available_companies st)) (\<lambda>ps.
       Inr (RadarChart ps))"

definition radar_chart :: "state \<Rightarrow> error + chart" where
  "radar_chart st = bind_err (radar_latest_date st) (radar_chart_at st)"

definition plot_debt_ratio_radar ::
  "(chart \<Rightarrow> error option) \<Rightarrow> state \<Rightarrow> (error + string option) \<times> state" where
  "plot_debt_ratio_radar backend st =
     (if available_companies st = []
      then (Inr None, say (Print ''No data available for radar chart'') st)
      else
        (case radar_chart st of
           Inl e \<Rightarrow> (Inl e, st)
         | Inr c \<Rightarrow>
             (let plot_path = get_plot_path st ''debt_ratio_radar.png''
              in case backend c of
                   Some e \<Rightarrow> (Inl e, st)
                 | None \<Rightarrow> (Inr (Some plot_path), write_file plot_path (Image c) st))))"

text \<open>\<^verbatim>\<open>bs.loc[label][latest_date]\<close>\<close>

definition cell :: "frame \<Rightarrow> string \<Rightarrow> period \<Rightarrow> error + fval" where
  "cell bs l p = bind_err (loc bs l) (\<lambda>vs. at_period (columns bs) vs p)"

definition raise_if :: "error option \<Rightarrow> error + unit" where
  "raise_if r = (case r of Some e \<Rightarrow> Inl e | None \<Rightarrow> Inr ())"

text \<open>The body of the \<^verbatim>\<open>try\<close> block of the composition chart, in the order of the source.\<close>

definition composition_chart ::
  "(chart \<Rightarrow> error option) \<Rightarrow> string \<Rightarrow> frame \<Rightarrow> period \<Rightarrow> error + chart" where
  "composition_chart backend company bs latest_date =
     bind_err (cell bs ''Total Assets'' latest_date) (\<lambda>total_assets.
     bind_err (cell bs ''Current Assets'' latest_date) (\<lambda>current_assets.
     bind_err (cell bs ''Total Non Current Assets'' latest_date) (\<lambda>non_current_assets.
     let assets = [(''Current Assets'', current_assets),
                   (''Non-current Assets'', non_current_assets)] in
     bind_err (raise_if (backend (Pie assets))) (\<lambda>_.
     bind_err (cell bs ''Total Liabilities Net Minority Interest'' latest_date)
       (\<lambda>total_liabilities.
     bind_err (cell bs ''Current Liabilities'' latest_date) (\<lambda>current_liabilities.
     bind_err (cell bs ''Total Non Current Liabilities Net Minority Interest'' latest_date)
       (\<lambda>non_current_liabilities.
     bind_err (cell bs ''Stockholders Equity'' latest_date) (\<lambda>equity.
     let liabilities_equity =
           [(''Current Liabilities'', current_liabilities),
            (''Non-current Liabilities'', non_current_liabilities),
            (''Shareholders'' @ [CHR 0x27] @ '' Equity'', equity)] in
     bind_err (raise_if (backend (Pie liabilities_equity))) (\<lambda>_.
     let c = PieCharts company latest_date assets liabilities_equity in
     bind_err (raise_if (backend c)) (\<lambda>_. Inr c))))))))))"

definition plot_balance_sheet_composition ::
  "(chart \<Rightarrow> error option) \<Rightarrow> string \<Rightarrow> state \<Rightarrow> (error + string option) \<times> state" where
  "plot_balance_sheet_composition backend company st =
     (case map_of (balance_sheets st) company of
        None \<Rightarrow> (Inr None, say (Print (''No data available for '' @ company)) st)
      | Some bs \<Rightarrow>
          (case first_label (columns bs) of
             Inl e \<Rightarrow> (Inl e, st)
           | Inr latest_date \<Rightarrow>
               (case composition_chart backend company bs latest_date of
                  Inr c \<Rightarrow>
                    (let plot_path =
                           get_plot_path st (company @ ''_balance_sheet_composition.png'')
                     in (Inr (Some plot_path), write_file plot_path (Image c) st))
                | Inl e \<Rightarrow>
                    (Inr None,
                     say (PrintItems (index_labels bs))
                       (say (Print ''Available balance sheet items:'')
                          (say (PrintErr (''Error plotting balance sheet composition for ''
                                  @ company @ '': '') e) st))))))"

section \<open>Report generator\<close>

text \<open>
  \<^verbatim>\<open>series.pct_change()\<close> fills a missing value with the last value before it, then
  divides each entry by its predecessor and subtracts one; the first entry has no
  predecessor and gives NaN. \<^verbatim>\<open>mean()\<close> skips NaN and is NaN when nothing is left.
  On float64 neither of them raises.
\<close>

fun ffill_from :: "fval \<Rightarrow> series \<Rightarrow> series" where
  "ffill_from prev [] = []"
| "ffill_from prev (x # xs) =
     (if isnan x then prev # ffill_from prev xs else x # ffill_from x xs)"

definition ffill :: "series \<Rightarrow> series" where
  "ffill xs = ffill_from NaN xs"

definition shift :: "series \<Rightarrow> series" where
  "shift xs = take (length xs) (NaN # xs)"

definition pct_change :: "series \<Rightarrow> series" where
  "pct_change xs =
     (let filled = ffill xs
      in map2 (\<lambda>x prev. fsub (fdiv x prev) (Fin 1)) filled (shift filled))"

definition mean :: "series \<Rightarrow> fval" where
  "mean xs =
     (let ys = filter (\<lambda>x. \<not> isnan x) xs
      in if ys = [] then NaN else fdiv (foldl fadd (Fin 0) ys) (Fin (real (length ys))))"

definition average_change :: "series \<Rightarrow> error + fval" where
  "average_change xs = Inr (mean (pct_change xs))"

text \<open>
  The \<^verbatim>\<open>try\<close> block of the trend section: one line per ratio; an exception ends the
  loop and adds the line of the handler after the lines already written.
\<close>

fun trend_lines :: "(string \<times> series) list \<Rightarrow> piece list" where
  "trend_lines [] = []"
| "trend_lines ((ratio, xs) # rest) =
     (case average_change xs of
        Inr trend \<Rightarrow>
          [Text (ratio @ '' Average Change Rate: ''), FmtPct trend, Text ''\<newline>'']
          @ trend_lines rest
      | Inl e \<Rightarrow> [Text ''Unable to calculate trends: '', Err e, Text ''\<newline>''])"

text \<open>
  The two threshold tests at the end of a section; the literals \<^verbatim>\<open>2\<close> and \<^verbatim>\<open>0.7\<close> are
  the reals 2 and 7/10.
\<close>

definition recommendations :: "fval \<Rightarrow> fval \<Rightarrow> piece list" where
  "recommendations current_ratio debt_to_assets =
     (if flt current_ratio (Fin 2)
      then [Text ''- Monitor short-term liquidity position\<newline>''] else [])
     @ (if fgt debt_to_assets (Fin (7 / 10))
        then [Text ''- High debt ratio, monitor long-term solvency risk\<newline>''] else [])"

text \<open>The part of the report written for one company that has a ratio table.\<close>

definition company_section :: "string \<Rightarrow> ratio_table \<Rightarrow> error + piece list" where
  "company_section company r =
     bind_err (first_label (r_index r)) (\<lambda>latest_date.
     bind_err (at_period (r_index r) (Current_Ratio r) latest_date) (\<lambda>current_ratio.
     bind_err (at_period (r_index r) (Quick_Ratio r) latest_date) (\<lambda>quick_ratio.
     bind_err (at_period (r_index r) (Debt_to_Assets r) latest_date) (\<lambda>debt_to_assets.
     bind_err (at_period (r_index r) (Equity_Multiplier r) latest_date) (\<lambda>equity_multiplier.
       Inr ([Name company, Text '' Company Analysis\<newline>'',
             Text (replicate 30 (CHR ''-'') @ ''\<newline>''),
             Text ''Analysis Date: '', Date latest_date, Text ''\<newline>\<newline>'',
             Text ''Key Financial Ratios:\<newline>'',
             Text ''1. Current Ratio: '', Fmt2f current_ratio, Text ''\<newline>'',
             Text ''   - Measures short-term liquidity, 2:1 is generally considered reasonable\<newline>'',
             Text ''2. Quick Ratio: '', Fmt2f quick_ratio, Text ''\<newline>'',
             Text ''   - Measures immediate liquidity, 1:1 is generally considered reasonable\<newline>'',
             Text ''3. Debt to Assets Ratio: '', FmtPct debt_to_assets, Text ''\<newline>'',
             Text ''   - Measures long-term solvency, below 70% is generally considered safe\<newline>'',
             Text ''4. Equity Multiplier: '', Fmt2f equity_multiplier, Text ''\<newline>'',
             Text ''   - Measures financial leverage, higher values indicate higher leverage\<newline>\<newline>'',
             Text ''Trend Analysis:\<newline>'']
            @ trend_lines [(''Current_Ratio'', Current_Ratio r),
                           (''Debt_to_Assets'', Debt_to_Assets r)]
            @ [Text ''\<newline>'', Text ''Recommendations:\<newline>'']
            @ recommendations current_ratio debt_to_assets
            @ [Text (''\<newline>'' @ replicate 50 (CHR ''='') @ ''\<newline>\<newline>'')]))))))"

fun report_sections ::
  "(string \<times> ratio_table) list \<Rightarrow> string list \<Rightarrow> error + piece list" where
  "report_sections rs [] = Inr []"
| "report_sections rs (company # cs) =
     (case map_of rs company of
        None \<Rightarrow> report_sections rs cs
      | Some r \<Rightarrow>
          bind_err (company_section company r) (\<lambda>sec.
          bind_err (report_sections rs cs) (\<lambda>more. Inr (sec @ more))))"

definition report_header :: "string \<Rightarrow> piece list" where
  "report_header now =
     [Text ''Financial Analysis Report\<newline>'',
      Text (replicate 50 (CHR ''='') @ ''\<newline>\<newline>''),
      Text ''Report Generated: '', Stamp now, Text ''\<newline>\<newline>'']"

definition generate_analysis_report :: "string \<Rightarrow> state \<Rightarrow> error + piece list" where
  "generate_analysis_report now st =
     bind_err (report_sections (ratios st) (companies st)) (\<lambda>secs.
       Inr (report_header now @ secs))"

section \<open>Orchestrator\<close>

definition top_level_handler :: "error \<Rightarrow> state \<Rightarrow> state" where
  "top_level_handler e st = say (PrintTrace e) (say (PrintErr ''\<newline>Program error: '' e) st)"

text \<open>The loop over the companies that draws the composition charts; an error ends it.\<close>

fun composition_loop ::
  "(chart \<Rightarrow> error option) \<Rightarrow> string list \<Rightarrow> state \<Rightarrow> (error + unit) \<times> state" where
  "composition_loop backend [] st = (Inr (), st)"
| "composition_loop backend (company # cs) st =
     (case plot_balance_sheet_composition backend company st of
        (Inl e, st1) \<Rightarrow> (Inl e, st1)
      | (Inr None, st1) \<Rightarrow> composition_loop backend cs st1
      | (Inr (Some composition_path), st1) \<Rightarrow>
          composition_loop backend cs
            (if composition_path \<noteq> []
             then say (Print (''  Saved '' @ company @ '' balance sheet composition: ''
                              @ composition_path)) st1
             else st1))"

definition report_step :: "string \<Rightarrow> state \<Rightarrow> state" where
  "report_step now st =
     (let st1 = say (Print ''\<newline>Generating analysis report...'') st
      in case generate_analysis_report now st1 of
           Inl e \<Rightarrow> top_level_handler e st1
         | Inr report \<Rightarrow>
             (let report_path = get_output_path st1 ''financial_analysis_report.txt'';
                  st2 = write_file report_path (Document report) st1;
                  st3 = say (Print (''Saved analysis report: '' @ report_path)) st2
              in say (Print ''\<newline>Analysis complete! All files have been saved in the output directory.'') st3))"

definition composition_step :: "(chart \<Rightarrow> error option) \<Rightarrow> string \<Rightarrow> state \<Rightarrow> state" where
  "composition_step backend now st =
     (let st1 = say (Print ''- Generating balance sheet composition charts...'') st
      in case composition_loop backend (companies st1) st1 of
           (Inl e, st2) \<Rightarrow> top_level_handler e st2
         | (Inr _, st2) \<Rightarrow> report_step now st2)"

definition radar_step :: "(chart \<Rightarrow> error option) \<Rightarrow> string \<Rightarrow> state \<Rightarrow> state" where
  "radar_step backend now st =
     (let st1 = say (Print ''- Generating financial ratios radar chart...'') st
      in case plot_debt_ratio_radar backend st1 of
           (Inl e, st2) \<Rightarrow> top_level_handler e st2
         | (Inr None, st2) \<Rightarrow> composition_step backend now st2
         | (Inr (Some radar_path), st2) \<Rightarrow>
             composition_step backend now
               (if radar_path \<noteq> [] then say (Print (''  Saved: '' @ radar_path)) st2 else st2))"

definition line_step :: "(chart \<Rightarrow> error option) \<Rightarrow> string \<Rightarrow> state \<Rightarrow> state" where
  "line_step backend now st =
     (let st1 = say (Print ''- Generating current ratio comparison...'')
                  (say (Print ''\<newline>Generating visualizations...'') st)
      in case plot_current_ratio_comparison backend st1 of
           (Inl e, st2) \<Rightarrow> top_level_handler e st2
         | (Inr current_ratio_path, st2) \<Rightarrow>
             radar_step backend now
               (if current_ratio_path \<noteq> []
                then say (Print (''  Saved: '' @ current_ratio_path)) st2 else st2))"

text \<open>
  The body of \<^verbatim>\<open>main\<close> for a list of companies: the data provider, the plotting
  backend, the clock and the directory of the program are its environment.
\<close>

definition run ::
  "(string \<Rightarrow> error + frame) \<Rightarrow> (chart \<Rightarrow> error option) \<Rightarrow> string \<Rightarrow> string \<Rightarrow> string list \<Rightarrow> state" where
  "run src backend now base cs =
     (let st0 = say (Print ''Initializing analyzer...'') (init base cs);
          st1 = fetch_data src (say (Print ''\<newline>Fetching financial data...'') st0);
          st2 = calculate_financial_ratios
                  (say (Print ''\<newline>Calculating financial ratios...'') st1)
      in line_step backend now st2)"

definition main ::
  "(string \<Rightarrow> error + frame) \<Rightarrow> (chart \<Rightarrow> error option) \<Rightarrow> string \<Rightarrow> string \<Rightarrow> state" where
  "main src backend now base = run src backend now base [''AAPL'', ''MSFT'', ''GOOGL'']"

section \<open>Auxiliary notions\<close>

text \<open>The five rows that \<^verbatim>\<open>calculate_financial_ratios\<close> reads with \<^verbatim>\<open>bs.loc\<close>.\<close>

definition required_items :: "string list" where
  "required_items = [''Current Assets'', ''Current Liabilities'', ''Total Assets'',
     ''Total Liabilities Net Minority Interest'', ''Stockholders Equity'']"

text \<open>
  The three rows that \<^verbatim>\<open>calculate_financial_ratios\<close> divides by, and a frame that holds a
  0 in one of them.
\<close>

definition denominators :: "string list" where
  "denominators = [''Current Liabilities'', ''Total Assets'', ''Stockholders Equity'']"

definition zero_denominator :: "frame \<Rightarrow> bool" where
  "zero_denominator bs =
     (\<exists>l \<in> set denominators.
        case map_of (rows bs) l of None \<Rightarrow> False | Some vs \<Rightarrow> Fin 0 \<in> set vs)"

text \<open>A frame is rectangular when every row has one value per column, as pandas frames are.\<close>

definition rectangular :: "frame \<Rightarrow> bool" where
  "rectangular bs = (\<forall>vs \<in> snd ` set (rows bs). length vs = length (columns bs))"

text \<open>A ratio table is well formed when each of its columns has one value per period.\<close>

definition wf_table :: "ratio_table \<Rightarrow> bool" where
  "wf_table r =
     (length (Current_Ratio r) = length (r_index r) \<and>
      length (Quick_Ratio r) = length (r_index r) \<and>
      length (Debt_to_Assets r) = length (r_index r) \<and>
      length (Equity_Multiplier r) = length (r_index r))"

text \<open>
  The period of the radar chart in the words of the specification: the most recent
  period that the tables of all plotted companies have in common.
\<close>

definition has_period :: "state \<Rightarrow> period \<Rightarrow> string \<Rightarrow> bool" where
  "has_period st p company =
     (case map_of (ratios st) company of Some r \<Rightarrow> p \<in> set (r_index r) | None \<Rightarrow> False)"

definition spec_common_periods :: "state \<Rightarrow> period list" where
  "spec_common_periods st =
     (case available_companies st of
        [] \<Rightarrow> []
      | company # _ \<Rightarrow>
          (case map_of (ratios st) company of
             None \<Rightarrow> []
           | Some r \<Rightarrow>
               filter (\<lambda>p. \<forall>c \<in> set (available_companies st). has_period st p c) (r_index r)))"

definition spec_most_recent_common :: "state \<Rightarrow> period option" where
  "spec_most_recent_common st =
     (case spec_common_periods st of [] \<Rightarrow> None | p # ps \<Rightarrow> Some (fold max ps p))"

text \<open>
  The composition chart of a company has been dealt with in a state: the company has no
  balance sheet and this was printed, or its chart was saved under its own path, or the
  error raised while building it was printed.
\<close>

definition composition_settled :: "(chart \<Rightarrow> error option) \<Rightarrow> state \<Rightarrow> string \<Rightarrow> bool" where
  "composition_settled backend st company =
     (case map_of (balance_sheets st) company of
        None \<Rightarrow> Print (''No data available for '' @ company) \<in> set (stdout st)
      | Some bs \<Rightarrow>
          (case first_label (columns bs) of
             Inl e \<Rightarrow> False
           | Inr d \<Rightarrow>
               (case composition_chart backend company bs d of
                  Inl e \<Rightarrow>
                    PrintErr (''Error plotting balance sheet composition for ''
                              @ company @ '': '') e \<in> set (stdout st)
                | Inr c \<Rightarrow>
                    map_of (files st)
                      (get_plot_path st (company @ ''_balance_sheet_composition.png''))
                    = Some (Image c))))"

text \<open>Two states hold the same analysis object.\<close>

definition same_analysis :: "state \<Rightarrow> state \<Rightarrow> bool" where
  "same_analysis st st' =
     (companies st' = companies st \<and> balance_sheets st' = balance_sheets st \<and>
      ratios st' = ratios st \<and> base_path st' = base_path st)"

text \<open>The companies a report has a section for, in the order of the sections.\<close>

fun report_names :: "piece list \<Rightarrow> string list" where
  "report_names [] = []"
| "report_names (Name c # ps) = c # report_names ps"
| "report_names (p # ps) = report_names ps"

text \<open>
  Two runs, the second on the list of companies without \<open>c\<close>, have reached states that
  differ in nothing but the list itself and what was printed, and \<open>c\<close> has neither a
  balance sheet nor a ratio table.
\<close>

definition unaffected :: "string \<Rightarrow> state \<Rightarrow> state \<Rightarrow> bool" where
  "unaffected c st st' =
     (companies st' = removeAll c (companies st) \<and>
      balance_sheets st' = balance_sheets st \<and> ratios st' = ratios st \<and>
      base_path st' = base_path st \<and> files st' = files st \<and>
      map_of (balance_sheets st) c = None \<and> map_of (ratios st) c = None)"

text \<open>
  Every ratio table of a listed company is well formed and has a period: the state in
  which report generation cannot raise.
\<close>

definition tables_ok :: "state \<Rightarrow> bool" where
  "tables_ok st =
     (\<forall>company \<in> set (companies st). \<forall>r.
        map_of (ratios st) company = Some r \<longrightarrow> wf_table r \<and> r_index r \<noteq> [])"

section \<open>Example data\<close>

text \<open>
  A company with two quarters and every required line item; its most recent quarter has
  the figures of the two examples of the specification (200 / 100 and 750 / 1000).
\<close>

definition acme_frame :: frame where
  "acme_frame =
     \<lparr>columns = [20240930, 20240630],
      rows = [(''Current Assets'', [Fin 200, Fin 150]),
              (''Current Liabilities'', [Fin 100, Fin 50]),
              (''Total Assets'', [Fin 1000, Fin 900]),
              (''Total Liabilities Net Minority Interest'', [Fin 750, Fin 450]),
              (''Stockholders Equity'', [Fin 250, Fin 450])],
      dtype = Float64\<rparr>"

definition acme_state :: state where
  "acme_state = (init ''.'' [''ACME''])\<lparr>balance_sheets := [(''ACME'', acme_frame)]\<rparr>"

definition idle_frame :: frame where
  "idle_frame =
     \<lparr>columns = [20240930],
      rows = [(''Current Assets'', [Fin 200]),
              (''Current Liabilities'', [Fin 0]),
              (''Total Assets'', [Fin 1000]),
              (''Total Liabilities Net Minority Interest'', [Fin 0]),
              (''Stockholders Equity'', [Fin 1000])],
      dtype = Float64\<rparr>"

text \<open>The same figures in a frame of dtype object, alone in an analysis.\<close>

definition void_frame :: frame where
  "void_frame = idle_frame\<lparr>dtype := Object\<rparr>"

definition void_state :: state where
  "void_state = (init ''.'' [''VOID''])\<lparr>balance_sheets := [(''VOID'', void_frame)]\<rparr>"

definition bare_frame :: frame where
  "bare_frame =
     \<lparr>columns = [20240930],
      rows = [(''Current Assets'', [Fin 200]),
              (''Current Liabilities'', [Fin 100]),
              (''Total Assets'', [Fin 1000]),
              (''Total Liabilities Net Minority Interest'', [Fin 750])],
      dtype = Float64\<rparr>"

definition shop_frame :: frame where
  "shop_frame =
     \<lparr>columns = [20240930, 20240630],
      rows = [(''Current Assets'', [Fin 200, Fin 150]),
              (''Current Liabilities'', [Fin 100, Fin 50]),
              (''Inventory'', [Fin 0, Fin 40]),
              (''Total Assets'', [Fin 1000, Fin 900]),
              (''Total Non Current Assets'', [Fin 800, Fin 750]),
              (''Total Liabilities Net Minority Interest'', [Fin 750, Fin 450]),
              (''Total Non Current Liabilities Net Minority Interest'', [Fin 650, Fin 400]),
              (''Stockholders Equity'', [Fin 250, Fin 450])],
      dtype = Float64\<rparr>"

definition trio_state :: state where
  "trio_state =
     (init ''.'' [''IDLE'', ''BARE'', ''SHOP''])
       \<lparr>balance_sheets := [(''IDLE'', idle_frame), (''BARE'', bare_frame), (''SHOP'', shop_frame)]\<rparr>"

definition solo_frame :: frame where
  "solo_frame =
     \<lparr>columns = [20240930],
      rows = [(''Current Assets'', [Fin 300]),
              (''Current Liabilities'', [Fin 100]),
              (''Total Assets'', [Fin 1000]),
              (''Total Liabilities Net Minority Interest'', [Fin 500]),
              (''Stockholders Equity'', [Fin 500])],
      dtype = Float64\<rparr>"

definition solo_state :: state where
  "solo_state = (init ''.'' [''SOLO''])\<lparr>balance_sheets := [(''SOLO'', solo_frame)]\<rparr>"

text \<open>
  A second company whose most recent quarter is one quarter behind: the quarter
  2024-09-30 is not in its table.
\<close>

definition late_frame :: frame where
  "late_frame =
     \<lparr>columns = [20240630, 20240331],
      rows = [(''Current Assets'', [Fin 90, Fin 80]),
              (''Current Liabilities'', [Fin 60, Fin 40]),
              (''Total Assets'', [Fin 400, Fin 300]),
              (''Total Liabilities Net Minority Interest'', [Fin 100, Fin 150]),
              (''Stockholders Equity'', [Fin 300, Fin 150])],
      dtype = Float64\<rparr>"

definition pair_state :: state where
  "pair_state =
     (init ''.'' [''ACME'', ''LATE''])
       \<lparr>balance_sheets := [(''ACME'', acme_frame), (''LATE'', late_frame)]\<rparr>"

definition pair_src :: "string \<Rightarrow> error + frame" where
  "pair_src company =
     (if company = ''ACME'' then Inr acme_frame
      else if company = ''LATE'' then Inr late_frame
      else Inr \<lparr>columns = [], rows = [], dtype = Float64\<rparr>)"

text \<open>A data provider that knows one company and returns an empty table for any other.\<close>

definition solo_src :: "string \<Rightarrow> error + frame" where
  "solo_src company =
     (if company = ''SOLO'' then Inr solo_frame
      else Inr \<lparr>columns = [], rows = [], dtype = Float64\<rparr>)"

section \<open>Basic facts\<close>

lemma bind_err_simps [simp]:
  "bind_err (Inl e) f = Inl e"
  "bind_err (Inr x) f = f x"
  by (simp_all add: bind_err_def)

lemma say_fields [simp]:
  "companies (say x st) = companies st"
  "balance_sheets (say x st) = balance_sheets st"
  "ratios (say x st) = ratios st"
  "base_path (say x st) = base_path st"
  "files (say x st) = files st"
  "stdout (say x st) = stdout st @ [x]"
  by (simp_all add: say_def)

lemma write_file_fields [simp]:
  "companies (write_file p a st) = companies st"
  "balance_sheets (write_file p a st) = balance_sheets st"
  "ratios (write_file p a st) = ratios st"
  "base_path (write_file p a st) = base_path st"
  "stdout (write_file p a st) = stdout st"
  "files (write_file p a st) = AList.update p a (files st)"
  by (simp_all add: write_file_def)

subsection \<open>The ratio calculator\<close>

lemma truediv_Float64 [simp]: "truediv Float64 xs ys = Inr (map2 fdiv xs ys)"
  by (simp add: truediv_def)

lemma truediv_nonzero: "Fin 0 \<notin> set ys \<Longrightarrow> truediv t xs ys = Inr (map2 fdiv xs ys)"
  by (auto simp: truediv_def dest: set_zip_rightD)

lemma truediv_Inr:
  "truediv t xs ys = Inr zs \<Longrightarrow>
   zs = map2 fdiv xs ys \<and> (t = Object \<longrightarrow> Fin 0 \<notin> set (map snd (zip xs ys)))"
  by (auto simp: truediv_def split: if_splits)

lemma truediv_Inl:
  "truediv t xs ys = Inl e \<Longrightarrow>
   e = ZeroDivisionError \<and> t = Object \<and> Fin 0 \<in> set (map snd (zip xs ys))"
  by (auto simp: truediv_def split: if_splits)

lemma truediv_aligned:
  "length xs = length ys \<Longrightarrow>
   truediv t xs ys =
     (if t = Object \<and> Fin 0 \<in> set ys then Inl ZeroDivisionError else Inr (map2 fdiv xs ys))"
  by (simp add: truediv_def)

lemma calc_one_fields [simp]:
  "companies (calc_one kv st) = companies st"
  "balance_sheets (calc_one kv st) = balance_sheets st"
  "base_path (calc_one kv st) = base_path st"
  "files (calc_one kv st) = files st"
  by (simp_all add: calc_one_def split: prod.splits sum.splits)

lemma calc_one_ratios:
  "map_of (ratios (calc_one (c, bs) st)) k =
     (if k = c then (case company_ratios bs of Inr r \<Rightarrow> Some r | Inl e \<Rightarrow> map_of (ratios st) k)
      else map_of (ratios st) k)"
  by (simp add: calc_one_def update_conv' split: sum.splits)

lemma fold_calc_one_fields [simp]:
  "companies (fold calc_one bss st) = companies st"
  "balance_sheets (fold calc_one bss st) = balance_sheets st"
  "base_path (fold calc_one bss st) = base_path st"
  "files (fold calc_one bss st) = files st"
  by (induction bss arbitrary: st; simp)+

text \<open>
  With distinct keys, as in a dictionary, the entry of a company after the loop is decided
  by its own balance sheet alone.
\<close>

lemma fold_calc_one_ratios:
  "distinct (map fst bss) \<Longrightarrow>
   map_of (ratios (fold calc_one bss st)) k =
     (case map_of bss k of
        None \<Rightarrow> map_of (ratios st) k
      | Some bs \<Rightarrow> (case company_ratios bs of Inr r \<Rightarrow> Some r | Inl e \<Rightarrow> map_of (ratios st) k))"
proof (induction bss arbitrary: st)
  case Nil
  then show ?case by simp
next
  case (Cons kv bss)
  obtain c bs where kv: "kv = (c, bs)" by (cases kv)
  from Cons.prems have d: "distinct (map fst bss)" and notin: "c \<notin> fst ` set bss"
    by (simp_all add: kv)
  have none: "map_of bss c = None" using notin by (simp add: map_of_eq_None_iff)
  show ?case
    using Cons.IH [OF d, of "calc_one (c, bs) st"] none
    by (auto simp: kv calc_one_ratios split: option.splits sum.splits)
qed

lemma calculate_ratios_lookup:
  "distinct (map fst (balance_sheets st)) \<Longrightarrow> ratios st = [] \<Longrightarrow>
   map_of (ratios (calculate_financial_ratios st)) k =
     (case map_of (balance_sheets st) k of
        None \<Rightarrow> None
      | Some bs \<Rightarrow> (case company_ratios bs of Inr r \<Rightarrow> Some r | Inl e \<Rightarrow> None))"
  by (simp add: calculate_financial_ratios_def fold_calc_one_ratios split: option.splits sum.splits)

lemma company_ratios_Inr:
  "company_ratios bs = Inr r \<Longrightarrow>
   \<exists>ca cl ta tli se.
     map_of (rows bs) ''Current Assets'' = Some ca \<and>
     map_of (rows bs) ''Current Liabilities'' = Some cl \<and>
     map_of (rows bs) ''Total Assets'' = Some ta \<and>
     map_of (rows bs) ''Total Liabilities Net Minority Interest'' = Some tli \<and>
     map_of (rows bs) ''Stockholders Equity'' = Some se \<and>
     r = \<lparr>r_index = columns bs,
          Current_Ratio = map2 fdiv ca cl,
          Quick_Ratio = map2 fdiv (less_inventory bs ca) cl,
          Debt_to_Assets = map2 fdiv tli ta,
          Equity_Multiplier = map2 fdiv ta se\<rparr>"
  unfolding company_ratios_def loc_def bind_err_def
  by (auto split: option.splits sum.splits dest: truediv_Inr)

lemma company_ratios_complete:
  "map_of (rows bs) ''Current Assets'' = Some ca \<Longrightarrow>
   map_of (rows bs) ''Current Liabilities'' = Some cl \<Longrightarrow>
   map_of (rows bs) ''Total Assets'' = Some ta \<Longrightarrow>
   map_of (rows bs) ''Total Liabilities Net Minority Interest'' = Some tli \<Longrightarrow>
   map_of (rows bs) ''Stockholders Equity'' = Some se \<Longrightarrow>
   dtype bs = Float64 \<or> (Fin 0 \<notin> set cl \<and> Fin 0 \<notin> set ta \<and> Fin 0 \<notin> set se) \<Longrightarrow>
   company_ratios bs =
     Inr \<lparr>r_index = columns bs,
          Current_Ratio = map2 fdiv ca cl,
          Quick_Ratio = map2 fdiv (less_inventory bs ca) cl,
          Debt_to_Assets = map2 fdiv tli ta,
          Equity_Multiplier = map2 fdiv ta se\<rparr>"
  by (auto simp: company_ratios_def loc_def truediv_nonzero)

text \<open>What the handler of \<^verbatim>\<open>calculate_financial_ratios\<close> can catch.\<close>

lemma company_ratios_error:
  "company_ratios bs = Inl e \<Longrightarrow>
   (e = ZeroDivisionError \<and> dtype bs = Object) \<or>
   (\<exists>l \<in> set required_items. e = KeyError l \<and> map_of (rows bs) l = None)"
  unfolding company_ratios_def loc_def bind_err_def required_items_def
  by (auto split: option.splits sum.splits dest: truediv_Inl)

text \<open>
  The current ratio is divided before Total Assets is looked up: on rows of dtype
  object with Current Liabilities 0 and no Total Assets row, the division is what raises.
\<close>

lemma division_raises_before_later_lookup:
  "company_ratios
     \<lparr>columns = [20240930],
      rows = [(''Current Assets'', [Fin 200]), (''Current Liabilities'', [Fin 0])],
      dtype = Object\<rparr> = Inl ZeroDivisionError"
  by (simp add: company_ratios_def loc_def truediv_def)

lemma acme_state_fields:
  "distinct (map fst (balance_sheets acme_state))"
  "ratios acme_state = []"
  "map_of (balance_sheets acme_state) ''ACME'' = Some acme_frame"
  "companies acme_state = [''ACME'']"
  by (simp_all add: acme_state_def init_def)

lemma acme_frame_rows:
  "map_of (rows acme_frame) ''Current Assets'' = Some [Fin 200, Fin 150]"
  "map_of (rows acme_frame) ''Current Liabilities'' = Some [Fin 100, Fin 50]"
  "map_of (rows acme_frame) ''Total Assets'' = Some [Fin 1000, Fin 900]"
  "map_of (rows acme_frame) ''Total Liabilities Net Minority Interest'' = Some [Fin 750, Fin 450]"
  "map_of (rows acme_frame) ''Stockholders Equity'' = Some [Fin 250, Fin 450]"
  "map_of (rows acme_frame) ''Inventory'' = None"
  "columns acme_frame = [20240930, 20240630]"
  "dtype acme_frame = Float64"
  by (simp_all add: acme_frame_def)

lemma trio_state_fields:
  "distinct (map fst (balance_sheets trio_state))"
  "ratios trio_state = []"
  "map_of (balance_sheets trio_state) ''IDLE'' = Some idle_frame"
  "map_of (balance_sheets trio_state) ''BARE'' = Some bare_frame"
  "map_of (balance_sheets trio_state) ''SHOP'' = Some shop_frame"
  by (simp_all add: trio_state_def init_def)

lemma fsub_zero [simp]: "fsub x (Fin 0) = x"
  by (cases x) (simp_all add: fsub_def)

lemma fdiv_by_zero: "fdiv x (Fin 0) \<in> {PInf, NInf, NaN}"
  by (cases x) simp_all

lemma less_inventory_absent:
  "map_of (rows bs) ''Inventory'' = None \<Longrightarrow> less_inventory bs ca = ca"
  by (simp add: less_inventory_def map_idI)

lemma calculate_fields [simp]:
  "companies (calculate_financial_ratios st) = companies st"
  "balance_sheets (calculate_financial_ratios st) = balance_sheets st"
  "base_path (calculate_financial_ratios st) = base_path st"
  "files (calculate_financial_ratios st) = files st"
  by (simp_all add: calculate_financial_ratios_def)

subsection \<open>The report generator\<close>

lemma fdiv_NaN [simp]: "fdiv x NaN = NaN"
  by (cases x) simp_all

lemma pct_change_single: "pct_change [x] = [NaN]"
  by (simp add: pct_change_def ffill_def shift_def fsub_def)

lemma average_change_single: "average_change [x] = Inr NaN"
  by (simp add: average_change_def pct_change_single mean_def)

lemma trend_lines_two:
  "trend_lines [(n1, xs), (n2, ys)] =
     [Text (n1 @ '' Average Change Rate: ''), FmtPct (mean (pct_change xs)), Text ''\<newline>'',
      Text (n2 @ '' Average Change Rate: ''), FmtPct (mean (pct_change ys)), Text ''\<newline>'']"
  by (simp add: average_change_def)

lemma company_section_Inr:
  assumes "company_section company r = Inr sec"
  shows "\<exists>d cr qr da em.
     first_label (r_index r) = Inr d \<and>
     at_period (r_index r) (Current_Ratio r) d = Inr cr \<and>
     at_period (r_index r) (Quick_Ratio r) d = Inr qr \<and>
     at_period (r_index r) (Debt_to_Assets r) d = Inr da \<and>
     at_period (r_index r) (Equity_Multiplier r) d = Inr em \<and>
     sec = [Name company, Text '' Company Analysis\<newline>'',
             Text (replicate 30 (CHR ''-'') @ ''\<newline>''),
             Text ''Analysis Date: '', Date d, Text ''\<newline>\<newline>'',
             Text ''Key Financial Ratios:\<newline>'',
             Text ''1. Current Ratio: '', Fmt2f cr, Text ''\<newline>'',
             Text ''   - Measures short-term liquidity, 2:1 is generally considered reasonable\<newline>'',
             Text ''2. Quick Ratio: '', Fmt2f qr, Text ''\<newline>'',
             Text ''   - Measures immediate liquidity, 1:1 is generally considered reasonable\<newline>'',
             Text ''3. Debt to Assets Ratio: '', FmtPct da, Text ''\<newline>'',
             Text ''   - Measures long-term solvency, below 70% is generally considered safe\<newline>'',
             Text ''4. Equity Multiplier: '', Fmt2f em, Text ''\<newline>'',
             Text ''   - Measures financial leverage, higher values indicate higher leverage\<newline>\<newline>'',
             Text ''Trend Analysis:\<newline>'']
            @ trend_lines [(''Current_Ratio'', Current_Ratio r),
                           (''Debt_to_Assets'', Debt_to_Assets r)]
            @ [Text ''\<newline>'', Text ''Recommendations:\<newline>'']
            @ recommendations cr da
            @ [Text (''\<newline>'' @ replicate 50 (CHR ''='') @ ''\<newline>\<newline>'')]"
  using assms unfolding company_section_def bind_err_def
  by (auto split: sum.splits)

lemma report_sections_split:
  "report_sections rs cs = Inr secs \<Longrightarrow> c \<in> set cs \<Longrightarrow> map_of rs c = Some r \<Longrightarrow>
   \<exists>sec pre post. company_section c r = Inr sec \<and> secs = pre @ sec @ post"
proof (induction cs arbitrary: secs)
  case Nil
  then show ?case by simp
next
  case (Cons a cs)
  show ?case
  proof (cases "map_of rs a")
    case None
    with Cons.prems have "report_sections rs cs = Inr secs" "c \<in> set cs"
      by auto
    from Cons.IH [OF this Cons.prems(3)] show ?thesis .
  next
    case (Some ra)
    with Cons.prems(1) obtain sa rest where
      sa: "company_section a ra = Inr sa" and rest: "report_sections rs cs = Inr rest"
      and secs: "secs = sa @ rest"
      by (auto simp: bind_err_def split: sum.splits)
    show ?thesis
    proof (cases "c = a")
      case True
      with Some Cons.prems(3) sa secs have "company_section c r = Inr sa \<and> secs = [] @ sa @ rest"
        by simp
      then show ?thesis by blast
    next
      case False
      with Cons.prems(2) have "c \<in> set cs" by simp
      from Cons.IH [OF rest this Cons.prems(3)] obtain sec pre post where
        "company_section c r = Inr sec" "rest = pre @ sec @ post" by blast
      then have "company_section c r = Inr sec \<and> secs = (sa @ pre) @ sec @ post"
        by (simp add: secs)
      then show ?thesis by blast
    qed
  qed
qed

lemma rule_lines:
  "replicate 30 (CHR ''-'') = ''------------------------------''"
  "replicate 50 (CHR ''='') = ''==================================================''"
  by (simp_all add: eval_nat_numeral)

lemma monitor_line_iff:
  assumes "company_section company r = Inr sec"
    and "first_label (r_index r) = Inr d"
    and "at_period (r_index r) (Current_Ratio r) d = Inr cr"
  shows "(Text ''- Monitor short-term liquidity position\<newline>'' \<in> set sec) = flt cr (Fin 2)"
proof -
  from company_section_Inr [OF assms(1)] assms(2,3) obtain qr da em where
    sec: "sec = [Name company, Text '' Company Analysis\<newline>'',
             Text (replicate 30 (CHR ''-'') @ ''\<newline>''),
             Text ''Analysis Date: '', Date d, Text ''\<newline>\<newline>'',
             Text ''Key Financial Ratios:\<newline>'',
             Text ''1. Current Ratio: '', Fmt2f cr, Text ''\<newline>'',
             Text ''   - Measures short-term liquidity, 2:1 is generally considered reasonable\<newline>'',
             Text ''2. Quick Ratio: '', Fmt2f qr, Text ''\<newline>'',
             Text ''   - Measures immediate liquidity, 1:1 is generally considered reasonable\<newline>'',
             Text ''3. Debt to Assets Ratio: '', FmtPct da, Text ''\<newline>'',
             Text ''   - Measures long-term solvency, below 70% is generally considered safe\<newline>'',
             Text ''4. Equity Multiplier: '', Fmt2f em, Text ''\<newline>'',
             Text ''   - Measures financial leverage, higher values indicate higher leverage\<newline>\<newline>'',
             Text ''Trend Analysis:\<newline>'']
            @ trend_lines [(''Current_Ratio'', Current_Ratio r),
                           (''Debt_to_Assets'', Debt_to_Assets r)]
            @ [Text ''\<newline>'', Text ''Recommendations:\<newline>'']
            @ recommendations cr da
            @ [Text (''\<newline>'' @ replicate 50 (CHR ''='') @ ''\<newline>\<newline>'')]"
    by auto
  show ?thesis
    unfolding sec trend_lines_two recommendations_def rule_lines
    by simp
qed

lemma debt_line_iff:
  assumes "company_section company r = Inr sec"
    and "first_label (r_index r) = Inr d"
    and "at_period (r_index r) (Debt_to_Assets r) d = Inr da"
  shows "(Text ''- High debt ratio, monitor long-term solvency risk\<newline>'' \<in> set sec)
           = fgt da (Fin (7 / 10))"
proof -
  from company_section_Inr [OF assms(1)] assms(2,3) obtain cr qr em where
    sec: "sec = [Name company, Text '' Company Analysis\<newline>'',
             Text (replicate 30 (CHR ''-'') @ ''\<newline>''),
             Text ''Analysis Date: '', Date d, Text ''\<newline>\<newline>'',
             Text ''Key Financial Ratios:\<newline>'',
             Text ''1. Current Ratio: '', Fmt2f cr, Text ''\<newline>'',
             Text ''   - Measures short-term liquidity, 2:1 is generally considered reasonable\<newline>'',
             Text ''2. Quick Ratio: '', Fmt2f qr, Text ''\<newline>'',
             Text ''   - Measures immediate liquidity, 1:1 is generally considered reasonable\<newline>'',
             Text ''3. Debt to Assets Ratio: '', FmtPct da, Text ''\<newline>'',
             Text ''   - Measures long-term solvency, below 70% is generally considered safe\<newline>'',
             Text ''4. Equity Multiplier: '', Fmt2f em, Text ''\<newline>'',
             Text ''   - Measures financial leverage, higher values indicate higher leverage\<newline>\<newline>'',
             Text ''Trend Analysis:\<newline>'']
            @ trend_lines [(''Current_Ratio'', Current_Ratio r),
                           (''Debt_to_Assets'', Debt_to_Assets r)]
            @ [Text ''\<newline>'', Text ''Recommendations:\<newline>'']
            @ recommendations cr da
            @ [Text (''\<newline>'' @ replicate 50 (CHR ''='') @ ''\<newline>\<newline>'')]"
    by auto
  show ?thesis
    unfolding sec trend_lines_two recommendations_def rule_lines
    by simp
qed

lemma report_split:
  assumes "company \<in> set (companies st)" and "map_of (ratios st) company = Some r"
    and "generate_analysis_report now st = Inr rep"
  shows "\<exists>sec pre post. company_section company r = Inr sec \<and> rep = pre @ sec @ post"
proof -
  from assms(3) obtain secs where
    secs: "report_sections (ratios st) (companies st) = Inr secs"
    and rep: "rep = report_header now @ secs"
    by (auto simp: generate_analysis_report_def bind_err_def split: sum.splits)
  from report_sections_split [OF secs assms(1,2)] obtain sec pre post where
    "company_section company r = Inr sec" "secs = pre @ sec @ post" by blast
  then have "company_section company r = Inr sec \<and> rep = (report_header now @ pre) @ sec @ post"
    by (simp add: rep)
  then show ?thesis by blast
qed

lemma acme_ratios:
  "ratios (calculate_financial_ratios acme_state) =
     [(''ACME'', \<lparr>r_index = [20240930, 20240630],
           Current_Ratio = [Fin 2, Fin 3],
           Quick_Ratio = [Fin 2, Fin 3],
           Debt_to_Assets = [Fin (3/4), Fin (1/2)],
           Equity_Multiplier = [Fin 4, Fin 2]\<rparr>)]"
  by (simp add: calculate_financial_ratios_def acme_state_def acme_frame_def init_def calc_one_def
      company_ratios_def loc_def less_inventory_def fsub_def say_def truediv_def)

lemma solo_ratios:
  "ratios (calculate_financial_ratios solo_state) =
     [(''SOLO'', \<lparr>r_index = [20240930],
           Current_Ratio = [Fin 3],
           Quick_Ratio = [Fin 3],
           Debt_to_Assets = [Fin (1/2)],
           Equity_Multiplier = [Fin 2]\<rparr>)]"
  by (simp add: calculate_financial_ratios_def solo_state_def solo_frame_def init_def calc_one_def
      company_ratios_def loc_def less_inventory_def fsub_def say_def truediv_def)

lemma solo_companies: "companies solo_state = [''SOLO'']"
  by (simp add: solo_state_def init_def)

lemma pair_ratios:
  "ratios (calculate_financial_ratios pair_state) =
     [(''ACME'', \<lparr>r_index = [20240930, 20240630],
           Current_Ratio = [Fin 2, Fin 3],
           Quick_Ratio = [Fin 2, Fin 3],
           Debt_to_Assets = [Fin (3/4), Fin (1/2)],
           Equity_Multiplier = [Fin 4, Fin 2]\<rparr>),
      (''LATE'', \<lparr>r_index = [20240630, 20240331],
           Current_Ratio = [Fin (3/2), Fin 2],
           Quick_Ratio = [Fin (3/2), Fin 2],
           Debt_to_Assets = [Fin (1/4), Fin (1/2)],
           Equity_Multiplier = [Fin (4/3), Fin 2]\<rparr>)]"
  by (simp add: calculate_financial_ratios_def pair_state_def acme_frame_def late_frame_def
      init_def calc_one_def company_ratios_def loc_def less_inventory_def fsub_def say_def
      truediv_def)

lemma pair_companies: "companies pair_state = [''ACME'', ''LATE'']"
  by (simp add: pair_state_def init_def)

lemma pair_available:
  "available_companies (calculate_financial_ratios pair_state) = [''ACME'', ''LATE'']"
  by (simp add: available_companies_def pair_ratios pair_companies)

subsection \<open>The radar chart\<close>

lemma at_period_missing: "p \<notin> set idx \<Longrightarrow> at_period idx vs p = Inl (KeyError_period p)"
proof -
  assume "p \<notin> set idx"
  then have "p \<notin> fst ` set (zip idx vs)"
    by (auto dest: set_zip_leftD)
  then have "map_of (zip idx vs) p = None"
    by (simp add: map_of_eq_None_iff)
  then show ?thesis by (simp add: at_period_def)
qed

lemma at_period_present:
  "length vs = length idx \<Longrightarrow> p \<in> set idx \<Longrightarrow> \<exists>v. at_period idx vs p = Inr v"
proof -
  assume "length vs = length idx" and "p \<in> set idx"
  then have "map_of (zip idx vs) p \<noteq> None"
    by (simp add: map_of_zip_is_None)
  then show ?thesis by (auto simp: at_period_def)
qed

lemma at_period_Inl: "at_period idx vs p = Inl e \<Longrightarrow> e = KeyError_period p"
  by (auto simp: at_period_def split: option.splits)

lemma at_period_Inr: "at_period idx vs p = Inr v \<Longrightarrow> p \<in> set idx"
  using at_period_missing [of p idx vs] by auto

lemma radar_values_Inl: "radar_values r p = Inl e \<Longrightarrow> e = KeyError_period p"
  unfolding radar_values_def bind_err_def
  by (auto split: sum.splits dest: at_period_Inl)

lemma radar_values_Inr: "radar_values r p = Inr vs \<Longrightarrow> p \<in> set (r_index r)"
  unfolding radar_values_def bind_err_def
  by (auto split: sum.splits dest: at_period_Inr)

lemma radar_values_present:
  assumes "wf_table r" and "p \<in> set (r_index r)"
  shows "\<exists>vs. radar_values r p = Inr vs"
proof -
  from assms obtain da cr qr em where
    "at_period (r_index r) (Debt_to_Assets r) p = Inr da"
    "at_period (r_index r) (Current_Ratio r) p = Inr cr"
    "at_period (r_index r) (Quick_Ratio r) p = Inr qr"
    "at_period (r_index r) (Equity_Multiplier r) p = Inr em"
    unfolding wf_table_def
    using at_period_present [of "Debt_to_Assets r" "r_index r" p]
      at_period_present [of "Current_Ratio r" "r_index r" p]
      at_period_present [of "Quick_Ratio r" "r_index r" p]
      at_period_present [of "Equity_Multiplier r" "r_index r" p]
    by auto
  then show ?thesis by (simp add: radar_values_def)
qed

lemma radar_polygons_Inr:
  "radar_polygons rs p cs = Inr ps \<Longrightarrow>
   map fst ps = cs \<and>
   (\<forall>(c, vs) \<in> set ps. \<exists>r. map_of rs c = Some r \<and> radar_values r p = Inr vs)"
proof (induction cs arbitrary: ps)
  case Nil
  then show ?case by simp
next
  case (Cons c cs)
  from Cons.prems obtain r vs rest where
    r: "map_of rs c = Some r" and vs: "radar_values r p = Inr vs"
    and rest: "radar_polygons rs p cs = Inr rest" and ps: "ps = (c, vs) # rest"
    by (auto simp: bind_err_def split: option.splits sum.splits)
  from Cons.IH [OF rest] r vs show ?case
    by (simp add: ps)
qed

lemma radar_polygons_Inl:
  "radar_polygons rs p cs = Inl e \<Longrightarrow> \<forall>c \<in> set cs. map_of rs c \<noteq> None \<Longrightarrow>
   e = KeyError_period p"
proof (induction cs)
  case Nil
  then show ?case by simp
next
  case (Cons c cs)
  from Cons.prems(2) obtain r where r: "map_of rs c = Some r" by auto
  show ?case
  proof (cases "radar_values r p")
    case (Inl e')
    with Cons.prems(1) r have "e = e'" by simp
    with Inl show ?thesis by (simp add: radar_values_Inl)
  next
    case (Inr vs)
    with Cons.prems(1) r have "radar_polygons rs p cs = Inl e"
      by (auto simp: bind_err_def split: sum.splits)
    with Cons.IH Cons.prems(2) show ?thesis by simp
  qed
qed

lemma radar_polygons_present:
  "\<forall>c \<in> set cs. \<exists>r. map_of rs c = Some r \<and> wf_table r \<and> p \<in> set (r_index r) \<Longrightarrow>
   \<exists>ps. radar_polygons rs p cs = Inr ps"
proof (induction cs)
  case Nil
  then show ?case by simp
next
  case (Cons c cs)
  from Cons.prems obtain r where
    r: "map_of rs c = Some r" "wf_table r" "p \<in> set (r_index r)" by auto
  from radar_values_present [OF r(2,3)] obtain vs where vs: "radar_values r p = Inr vs" ..
  from Cons.IH Cons.prems obtain rest where "radar_polygons rs p cs = Inr rest" by auto
  with r(1) vs show ?case by simp
qed

lemma available_has_table:
  "c \<in> set (available_companies st) \<Longrightarrow> map_of (ratios st) c \<noteq> None"
  by (simp add: available_companies_def)

lemma fold_max_bounded: "\<forall>x \<in> set xs. x \<le> d \<Longrightarrow> fold max xs (d::nat) = d"
  by (induction xs) (simp_all add: max_def)

lemma trio_ratios:
  "ratios (calculate_financial_ratios trio_state) =
     [(''IDLE'', \<lparr>r_index = [20240930], Current_Ratio = [PInf], Quick_Ratio = [PInf],
           Debt_to_Assets = [Fin 0], Equity_Multiplier = [Fin 1]\<rparr>),
      (''SHOP'', \<lparr>r_index = [20240930, 20240630], Current_Ratio = [Fin 2, Fin 3],
           Quick_Ratio = [Fin 2, Fin (11/5)], Debt_to_Assets = [Fin (3/4), Fin (1/2)],
           Equity_Multiplier = [Fin 4, Fin 2]\<rparr>)]"
  by (simp add: calculate_financial_ratios_def trio_state_def idle_frame_def bare_frame_def
      shop_frame_def init_def calc_one_def company_ratios_def loc_def less_inventory_def
      fsub_def say_def truediv_def)

lemma trio_companies: "companies trio_state = [''IDLE'', ''BARE'', ''SHOP'']"
  by (simp add: trio_state_def init_def)

lemma trio_available:
  "available_companies (calculate_financial_ratios trio_state) = [''IDLE'', ''SHOP'']"
  by (simp add: available_companies_def trio_ratios trio_companies)

subsection \<open>What each step reads and what it leaves alone\<close>

lemma fetch_one_fields [simp]:
  "companies (fetch_one src c st) = companies st"
  "ratios (fetch_one src c st) = ratios st"
  "base_path (fetch_one src c st) = base_path st"
  "files (fetch_one src c st) = files st"
  by (simp_all add: fetch_one_def Let_def split: sum.splits)

lemma fold_fetch_one_fields [simp]:
  "companies (fold (fetch_one src) cs st) = companies st"
  "ratios (fold (fetch_one src) cs st) = ratios st"
  "base_path (fold (fetch_one src) cs st) = base_path st"
  "files (fold (fetch_one src) cs st) = files st"
  by (induction cs arbitrary: st; simp)+

lemma fetch_data_fields [simp]:
  "companies (fetch_data src st) = companies st"
  "ratios (fetch_data src st) = ratios st"
  "base_path (fetch_data src st) = base_path st"
  "files (fetch_data src st) = files st"
  by (simp_all add: fetch_data_def)

lemma fetch_one_sheets:
  "balance_sheets (fetch_one src c st) =
     (case src c of
        Inr bs \<Rightarrow> if empty_frame bs then balance_sheets st
                  else AList.update c bs (balance_sheets st)
      | Inl e \<Rightarrow> balance_sheets st)"
  by (simp add: fetch_one_def Let_def split: sum.splits)

lemma ratios_calc_one:
  "ratios (calc_one (c, bs) st) =
     (case company_ratios bs of Inr r \<Rightarrow> AList.update c r (ratios st) | Inl e \<Rightarrow> ratios st)"
  by (simp add: calc_one_def split: sum.splits)

lemma ratios_fold_calc_one_cong:
  "ratios st = ratios st' \<Longrightarrow> ratios (fold calc_one bss st) = ratios (fold calc_one bss st')"
proof (induction bss arbitrary: st st')
  case Nil
  then show ?case by simp
next
  case (Cons kv bss)
  obtain c bs where kv: "kv = (c, bs)" by (cases kv)
  have "ratios (calc_one kv st) = ratios (calc_one kv st')"
    using Cons.prems by (simp add: kv ratios_calc_one split: sum.splits)
  from Cons.IH [OF this] show ?case by simp
qed

lemma calculate_ratios_cong:
  assumes "balance_sheets st = balance_sheets st'" and "ratios st = ratios st'"
  shows "ratios (calculate_financial_ratios st) = ratios (calculate_financial_ratios st')"
  unfolding calculate_financial_ratios_def assms(1)
  by (rule ratios_fold_calc_one_cong [OF assms(2)])

lemma paths_say [simp]:
  "get_plot_path (say x st) f = get_plot_path st f"
  "get_output_path (say x st) f = get_output_path st f"
  by (simp_all add: get_plot_path_def get_output_path_def plots_dir_def output_dir_def)

lemma paths_write_file [simp]:
  "get_plot_path (write_file p a st) f = get_plot_path st f"
  "get_output_path (write_file p a st) f = get_output_path st f"
  by (simp_all add: get_plot_path_def get_output_path_def plots_dir_def output_dir_def)

lemma path_nonempty [simp]: "get_plot_path st f \<noteq> []" "get_output_path st f \<noteq> []"
  by (simp_all add: get_plot_path_def get_output_path_def join_def)

lemma readers_say [simp]:
  "line_series (say x st) = line_series st"
  "available_companies (say x st) = available_companies st"
  "radar_latest_date (say x st) = radar_latest_date st"
  "radar_chart_at (say x st) = radar_chart_at st"
  "generate_analysis_report now (say x st) = generate_analysis_report now st"
  by (simp_all add: line_series_def available_companies_def radar_latest_date_def
      radar_chart_at_def generate_analysis_report_def fun_eq_iff split: list.splits)

lemma readers_write_file [simp]:
  "line_series (write_file p a st) = line_series st"
  "available_companies (write_file p a st) = available_companies st"
  "radar_latest_date (write_file p a st) = radar_latest_date st"
  "radar_chart_at (write_file p a st) = radar_chart_at st"
  "generate_analysis_report now (write_file p a st) = generate_analysis_report now st"
  by (simp_all add: line_series_def available_companies_def radar_latest_date_def
      radar_chart_at_def generate_analysis_report_def fun_eq_iff split: list.splits)

lemma radar_chart_say [simp]:
  "radar_chart (say x st) = radar_chart st"
  "radar_chart (write_file p a st) = radar_chart st"
  by (simp_all add: radar_chart_def)

lemma top_level_handler_fields [simp]:
  "companies (top_level_handler e st) = companies st"
  "balance_sheets (top_level_handler e st) = balance_sheets st"
  "ratios (top_level_handler e st) = ratios st"
  "base_path (top_level_handler e st) = base_path st"
  "files (top_level_handler e st) = files st"
  "stdout (top_level_handler e st) =
     stdout st @ [PrintErr ''\<newline>Program error: '' e, PrintTrace e]"
  by (simp_all add: top_level_handler_def)

text \<open>The line chart step when the backend accepts the chart.\<close>

lemma line_step_drawn:
  assumes "backend (LineChart (line_series st)) = None"
  shows "line_step backend now st =
     radar_step backend now
       (say (Print (''  Saved: '' @ get_plot_path st ''current_ratio_comparison.png''))
         (write_file (get_plot_path st ''current_ratio_comparison.png'')
            (Image (LineChart (line_series st)))
            (say (Print ''- Generating current ratio comparison...'')
               (say (Print ''\<newline>Generating visualizations...'') st))))"
  using assms by (simp add: line_step_def plot_current_ratio_comparison_def Let_def)

lemma line_step_raised:
  assumes "backend (LineChart (line_series st)) = Some e"
  shows "line_step backend now st =
     top_level_handler e
       (say (Print ''- Generating current ratio comparison...'')
          (say (Print ''\<newline>Generating visualizations...'') st))"
  using assms by (simp add: line_step_def plot_current_ratio_comparison_def Let_def)

lemma radar_step_raised:
  assumes "available_companies st \<noteq> []" and "radar_chart st = Inl e"
  shows "radar_step backend now st =
     top_level_handler e (say (Print ''- Generating financial ratios radar chart...'') st)"
  using assms by (simp add: radar_step_def plot_debt_ratio_radar_def Let_def)

lemma pair_fetched:
  "balance_sheets (fetch_data pair_src (say x (say y (init ''.'' [''ACME'', ''LATE'']))))
     = balance_sheets pair_state"
  by (simp add: fetch_data_def fetch_one_sheets pair_src_def init_def pair_state_def
      empty_frame_def acme_frame_def late_frame_def)

subsection \<open>The composition charts\<close>

lemma same_analysis_refl [simp]: "same_analysis st st"
  by (simp add: same_analysis_def)

lemma same_analysis_say [simp]: "same_analysis st (say x st') = same_analysis st st'"
  by (simp add: same_analysis_def)

lemma same_analysis_write_file [simp]:
  "same_analysis st (write_file p a st') = same_analysis st st'"
  by (simp add: same_analysis_def)

lemma same_analysis_path:
  "same_analysis st st' \<Longrightarrow> get_plot_path st' f = get_plot_path st f"
  "same_analysis st st' \<Longrightarrow> get_output_path st' f = get_output_path st f"
  by (simp_all add: same_analysis_def get_plot_path_def get_output_path_def plots_dir_def
      output_dir_def)

lemma generate_same_analysis:
  "same_analysis st st' \<Longrightarrow> generate_analysis_report now st' = generate_analysis_report now st"
  by (simp add: same_analysis_def generate_analysis_report_def)

lemma composition_path_inject:
  "get_plot_path st (c @ ''_balance_sheet_composition.png'')
     = get_plot_path st (x @ ''_balance_sheet_composition.png'') \<Longrightarrow> c = x"
  by (simp add: get_plot_path_def join_def)

lemma composition_settled_say:
  "composition_settled backend st x \<Longrightarrow> composition_settled backend (say y st) x"
  by (auto simp: composition_settled_def split: option.splits sum.splits)

lemma composition_settled_write:
  assumes "composition_settled backend st x"
    and "map_of (balance_sheets st) c = Some bs" and "first_label (columns bs) = Inr d"
    and "composition_chart backend c bs d = Inr ch"
  shows "composition_settled backend
           (write_file (get_plot_path st (c @ ''_balance_sheet_composition.png'')) (Image ch) st) x"
proof (cases "x = c")
  case True
  with assms(2-4) show ?thesis
    by (simp add: composition_settled_def update_conv')
next
  case False
  then have "get_plot_path st (c @ ''_balance_sheet_composition.png'')
     \<noteq> get_plot_path st (x @ ''_balance_sheet_composition.png'')"
    using composition_path_inject [of st c x] by blast
  with assms(1) show ?thesis
    by (auto simp: composition_settled_def update_conv' split: option.splits sum.splits)
qed

text \<open>
  One call of \<^verbatim>\<open>plot_balance_sheet_composition\<close> on a state whose balance sheets all
  have a column: it never raises, whatever the backend does.
\<close>

lemma plot_composition_step:
  assumes "\<forall>bs \<in> snd ` set (balance_sheets st). columns bs \<noteq> []"
  shows "\<exists>r st1. plot_balance_sheet_composition backend c st = (Inr r, st1) \<and>
           same_analysis st st1 \<and> set (stdout st) \<subseteq> set (stdout st1) \<and>
           composition_settled backend st1 c \<and>
           (\<forall>x. composition_settled backend st x \<longrightarrow> composition_settled backend st1 x)"
proof (cases "map_of (balance_sheets st) c")
  case None
  then show ?thesis
    by (auto simp: plot_balance_sheet_composition_def composition_settled_say)
       (simp add: composition_settled_def)
next
  case (Some bs)
  then have "bs \<in> snd ` set (balance_sheets st)"
    by (metis map_of_SomeD image_eqI snd_conv)
  with assms have "columns bs \<noteq> []" by blast
  then obtain d ds where cols: "columns bs = d # ds" by (cases "columns bs") auto
  then have d: "first_label (columns bs) = Inr d" by (simp add: first_label_def)
  show ?thesis
  proof (cases "composition_chart backend c bs d")
    case (Inl e)
    let ?st1 = "say (PrintItems (index_labels bs))
                  (say (Print ''Available balance sheet items:'')
                     (say (PrintErr (''Error plotting balance sheet composition for ''
                             @ c @ '': '') e) st))"
    have res: "plot_balance_sheet_composition backend c st = (Inr None, ?st1)"
      by (simp add: plot_balance_sheet_composition_def Some d Inl)
    have "composition_settled backend ?st1 c"
      by (simp add: composition_settled_def Some d Inl)
    moreover have "\<forall>x. composition_settled backend st x \<longrightarrow> composition_settled backend ?st1 x"
      by (simp add: composition_settled_say)
    ultimately show ?thesis
      unfolding res by auto
  next
    case (Inr ch)
    let ?p = "get_plot_path st (c @ ''_balance_sheet_composition.png'')"
    let ?st1 = "write_file ?p (Image ch) st"
    have res: "plot_balance_sheet_composition backend c st = (Inr (Some ?p), ?st1)"
      by (simp add: plot_balance_sheet_composition_def Some d Inr Let_def)
    have "composition_settled backend ?st1 c"
      by (simp add: composition_settled_def Some d Inr update_conv')
    moreover have "\<forall>x. composition_settled backend st x \<longrightarrow> composition_settled backend ?st1 x"
      using composition_settled_write [OF _ Some d Inr] by blast
    ultimately show ?thesis
      unfolding res by auto
  qed
qed

lemma composition_loop_runs:
  assumes "\<forall>bs \<in> snd ` set (balance_sheets st). columns bs \<noteq> []"
  shows "\<exists>st'. composition_loop backend cs st = (Inr (), st') \<and>
           same_analysis st st' \<and> set (stdout st) \<subseteq> set (stdout st') \<and>
           (\<forall>c \<in> set cs. composition_settled backend st' c) \<and>
           (\<forall>x. composition_settled backend st x \<longrightarrow> composition_settled backend st' x)"
  using assms
proof (induction cs arbitrary: st)
  case Nil
  then show ?case by simp
next
  case (Cons c cs)
  from plot_composition_step [OF Cons.prems, of backend c] obtain r st1 where
    step: "plot_balance_sheet_composition backend c st = (Inr r, st1)"
    and same1: "same_analysis st st1" and out1: "set (stdout st) \<subseteq> set (stdout st1)"
    and done1: "composition_settled backend st1 c"
    and keep1: "\<forall>x. composition_settled backend st x \<longrightarrow> composition_settled backend st1 x"
    by blast
  define st2 where "st2 =
     (case r of None \<Rightarrow> st1
      | Some composition_path \<Rightarrow>
          if composition_path \<noteq> []
          then say (Print (''  Saved '' @ c @ '' balance sheet composition: ''
                           @ composition_path)) st1
          else st1)"
  have loop: "composition_loop backend (c # cs) st = composition_loop backend cs st2"
    by (simp add: step st2_def split: option.splits)
  have same2: "same_analysis st st2" and out2: "set (stdout st) \<subseteq> set (stdout st2)"
    and done2: "composition_settled backend st2 c"
    and keep2: "\<forall>x. composition_settled backend st x \<longrightarrow> composition_settled backend st2 x"
    using same1 out1 done1 keep1
    by (auto simp: st2_def composition_settled_say split: option.splits)
  from same2 Cons.prems have "\<forall>bs \<in> snd ` set (balance_sheets st2). columns bs \<noteq> []"
    by (simp add: same_analysis_def)
  from Cons.IH [OF this] obtain st' where
    rest: "composition_loop backend cs st2 = (Inr (), st')"
    and same3: "same_analysis st2 st'" and out3: "set (stdout st2) \<subseteq> set (stdout st')"
    and done3: "\<forall>c \<in> set cs. composition_settled backend st' c"
    and keep3: "\<forall>x. composition_settled backend st2 x \<longrightarrow> composition_settled backend st' x"
    by blast
  have "same_analysis st st'"
    using same2 same3 by (simp add: same_analysis_def)
  moreover have "set (stdout st) \<subseteq> set (stdout st')"
    using out2 out3 by blast
  moreover have "\<forall>x \<in> set (c # cs). composition_settled backend st' x"
    using done2 done3 keep3 by auto
  moreover have "\<forall>x. composition_settled backend st x \<longrightarrow> composition_settled backend st' x"
    using keep2 keep3 by blast
  ultimately show ?case
    unfolding loop rest by blast
qed

lemma report_step_written:
  assumes "generate_analysis_report now st = Inr rep"
  shows "map_of (files (report_step now st)) (get_output_path st ''financial_analysis_report.txt'')
           = Some (Document rep)"
  using assms by (simp add: report_step_def Let_def update_conv')

lemma radar_step_backend_raised:
  assumes "available_companies st \<noteq> []" and "radar_chart st = Inr c" and "backend c = Some e"
  shows "radar_step backend now st =
     top_level_handler e (say (Print ''- Generating financial ratios radar chart...'') st)"
  using assms by (simp add: radar_step_def plot_debt_ratio_radar_def Let_def)

lemma trio_sheets:
  "balance_sheets trio_state =
     [(''IDLE'', idle_frame), (''BARE'', bare_frame), (''SHOP'', shop_frame)]"
  "base_path trio_state = ''.''"
  by (simp_all add: trio_state_def init_def)

lemma trio_columns:
  "columns idle_frame = [20240930]" "columns bare_frame = [20240930]"
  "columns shop_frame = [20240930, 20240630]"
  by (simp_all add: idle_frame_def bare_frame_def shop_frame_def)

lemma idle_composition:
  "composition_chart (\<lambda>c. None) ''IDLE'' idle_frame 20240930
     = Inl (KeyError ''Total Non Current Assets'')"
  by (simp add: composition_chart_def cell_def loc_def at_period_def idle_frame_def)

lemma shop_composition:
  "composition_chart (\<lambda>c. None) ''SHOP'' shop_frame 20240930 =
     Inr (PieCharts ''SHOP'' 20240930
            [(''Current Assets'', Fin 200), (''Non-current Assets'', Fin 800)]
            [(''Current Liabilities'', Fin 100), (''Non-current Liabilities'', Fin 650),
             (''Shareholders'' @ [CHR 0x27] @ '' Equity'', Fin 250)])"
  by (simp add: composition_chart_def cell_def loc_def at_period_def shop_frame_def
      raise_if_def Let_def)

subsection \<open>Who appears where\<close>

lemma report_names_append [simp]:
  "report_names (a @ b) = report_names a @ report_names b"
  by (induction a rule: report_names.induct) simp_all

lemma report_names_recommendations [simp]: "report_names (recommendations cr da) = []"
  by (simp add: recommendations_def)

lemma company_section_names:
  assumes "company_section company r = Inr sec"
  shows "report_names sec = [company]"
proof -
  from company_section_Inr [OF assms] obtain d cr qr da em where
    "sec = [Name company, Text '' Company Analysis\<newline>'',
             Text (replicate 30 (CHR ''-'') @ ''\<newline>''),
             Text ''Analysis Date: '', Date d, Text ''\<newline>\<newline>'',
             Text ''Key Financial Ratios:\<newline>'',
             Text ''1. Current Ratio: '', Fmt2f cr, Text ''\<newline>'',
             Text ''   - Measures short-term liquidity, 2:1 is generally considered reasonable\<newline>'',
             Text ''2. Quick Ratio: '', Fmt2f qr, Text ''\<newline>'',
             Text ''   - Measures immediate liquidity, 1:1 is generally considered reasonable\<newline>'',
             Text ''3. Debt to Assets Ratio: '', FmtPct da, Text ''\<newline>'',
             Text ''   - Measures long-term solvency, below 70% is generally considered safe\<newline>'',
             Text ''4. Equity Multiplier: '', Fmt2f em, Text ''\<newline>'',
             Text ''   - Measures financial leverage, higher values indicate higher leverage\<newline>\<newline>'',
             Text ''Trend Analysis:\<newline>'']
            @ trend_lines [(''Current_Ratio'', Current_Ratio r),
                           (''Debt_to_Assets'', Debt_to_Assets r)]
            @ [Text ''\<newline>'', Text ''Recommendations:\<newline>'']
            @ recommendations cr da
            @ [Text (''\<newline>'' @ replicate 50 (CHR ''='') @ ''\<newline>\<newline>'')]"
    by blast
  then show ?thesis
    unfolding trend_lines_two by simp
qed

lemma report_sections_names:
  "report_sections rs cs = Inr secs \<Longrightarrow>
   report_names secs = filter (\<lambda>c. map_of rs c \<noteq> None) cs"
proof (induction cs arbitrary: secs)
  case Nil
  then show ?case by simp
next
  case (Cons c cs)
  show ?case
  proof (cases "map_of rs c")
    case None
    with Cons show ?thesis by simp
  next
    case (Some r)
    with Cons.prems obtain sec rest where
      sec: "company_section c r = Inr sec" and rest: "report_sections rs cs = Inr rest"
      and secs: "secs = sec @ rest"
      by (auto simp: bind_err_def split: sum.splits)
    from Cons.IH [OF rest] company_section_names [OF sec] show ?thesis
      by (simp add: secs Some)
  qed
qed

lemma generate_names:
  assumes "generate_analysis_report now st = Inr rep"
  shows "report_names rep = available_companies st"
proof -
  from assms obtain secs where
    secs: "report_sections (ratios st) (companies st) = Inr secs"
    and rep: "rep = report_header now @ secs"
    by (auto simp: generate_analysis_report_def bind_err_def split: sum.splits)
  from report_sections_names [OF secs] show ?thesis
    by (simp add: rep report_header_def available_companies_def)
qed

lemma line_series_names: "map fst (line_series st) = available_companies st"
proof -
  have "map fst (concat (map (\<lambda>company.
        (case map_of rs company of
           Some r \<Rightarrow> [(company, r_index r, Current_Ratio r)]
         | None \<Rightarrow> [])) cs)) = filter (\<lambda>company. map_of rs company \<noteq> None) cs" for rs cs
    by (induction cs) (auto split: option.splits)
  then show ?thesis by (simp add: line_series_def available_companies_def)
qed

lemma radar_chart_names:
  assumes "radar_chart st = Inr (RadarChart ps)"
  shows "map fst ps = available_companies st"
proof -
  from assms obtain d where "radar_chart_at st d = Inr (RadarChart ps)"
    by (auto simp: radar_chart_def bind_err_def split: sum.splits)
  then have "radar_polygons (ratios st) d (available_companies st) = Inr ps"
    by (auto simp: radar_chart_at_def bind_err_def split: sum.splits)
  from radar_polygons_Inr [OF this] show ?thesis by simp
qed

lemma not_available: "map_of (ratios st) company = None \<Longrightarrow> company \<notin> set (available_companies st)"
  by (simp add: available_companies_def)

lemma composition_ratios_update:
  "plot_balance_sheet_composition backend company (st\<lparr>ratios := rs\<rparr>) =
     (fst (plot_balance_sheet_composition backend company st),
      (snd (plot_balance_sheet_composition backend company st))\<lparr>ratios := rs\<rparr>)"
  by (simp add: plot_balance_sheet_composition_def say_def write_file_def get_plot_path_def
      plots_dir_def output_dir_def Let_def split: option.splits sum.splits)

subsection \<open>A company without data does not change the run\<close>

lemma unaffected_say [simp]:
  "unaffected c (say x st) (say y st') = unaffected c st st'"
  "unaffected c (say x st) st' = unaffected c st st'"
  "unaffected c st (say y st') = unaffected c st st'"
  by (simp_all add: unaffected_def)

lemma unaffected_write:
  "unaffected c st st' \<Longrightarrow> unaffected c (write_file p a st) (write_file p a st')"
  by (simp add: unaffected_def)

lemma unaffected_handler:
  "unaffected c st st' \<Longrightarrow> unaffected c (top_level_handler e st) (top_level_handler e st')"
  by (simp add: unaffected_def)

lemma concat_map_removeAll:
  "f c = [] \<Longrightarrow> concat (map f (removeAll c cs)) = concat (map f cs)"
  by (induction cs) auto

lemma filter_removeAll_other:
  "\<not> P c \<Longrightarrow> filter P (removeAll c cs) = filter P cs"
  by (induction cs) auto

lemma report_sections_removeAll:
  "map_of rs c = None \<Longrightarrow> report_sections rs (removeAll c cs) = report_sections rs cs"
  by (induction cs) (auto split: option.splits)

lemma unaffected_reads:
  assumes "unaffected c st st'"
  shows "line_series st' = line_series st"
    and "available_companies st' = available_companies st"
    and "radar_chart st' = radar_chart st"
    and "generate_analysis_report now st' = generate_analysis_report now st"
    and "get_plot_path st' f = get_plot_path st f"
    and "get_output_path st' f = get_output_path st f"
proof -
  from assms have f: "companies st' = removeAll c (companies st)" "ratios st' = ratios st"
    "base_path st' = base_path st" "map_of (ratios st) c = None"
    by (simp_all add: unaffected_def)
  show "line_series st' = line_series st"
    unfolding line_series_def f(1,2) by (rule concat_map_removeAll) (simp add: f(4))
  show av: "available_companies st' = available_companies st"
    unfolding available_companies_def f(1,2) by (rule filter_removeAll_other) (simp add: f(4))
  have "radar_latest_date st' = radar_latest_date st"
    by (simp add: radar_latest_date_def av f(2) split: list.splits)
  moreover have "radar_chart_at st' = radar_chart_at st"
    by (simp add: radar_chart_at_def av f(2) fun_eq_iff)
  ultimately show "radar_chart st' = radar_chart st"
    by (simp add: radar_chart_def)
  show "generate_analysis_report now st' = generate_analysis_report now st"
    by (simp add: generate_analysis_report_def f(1,2) report_sections_removeAll [OF f(4)])
  show "get_plot_path st' f = get_plot_path st f"
    by (simp add: get_plot_path_def plots_dir_def output_dir_def f(3))
  show "get_output_path st' f = get_output_path st f"
    by (simp add: get_output_path_def output_dir_def f(3))
qed

lemma report_step_unaffected:
  assumes "unaffected c st st'"
  shows "unaffected c (report_step now st) (report_step now st')"
proof (cases "generate_analysis_report now st")
  case (Inl e)
  then show ?thesis
    using assms unaffected_reads(4) [OF assms, of now]
    by (simp add: report_step_def Let_def unaffected_handler)
next
  case (Inr rep)
  then show ?thesis
    using assms unaffected_reads(4) [OF assms, of now] unaffected_reads(6) [OF assms]
    by (simp add: report_step_def Let_def unaffected_write)
qed

lemma plot_composition_absent:
  "map_of (balance_sheets st) c = None \<Longrightarrow>
   plot_balance_sheet_composition backend c st =
     (Inr None, say (Print (''No data available for '' @ c)) st)"
  by (simp add: plot_balance_sheet_composition_def)

lemma plot_composition_unaffected:
  assumes "unaffected c st st'"
  shows "\<exists>r st1 st1'.
           plot_balance_sheet_composition backend x st = (r, st1) \<and>
           plot_balance_sheet_composition backend x st' = (r, st1') \<and>
           unaffected c st1 st1'"
proof -
  from assms have b: "balance_sheets st' = balance_sheets st" by (simp add: unaffected_def)
  note p = unaffected_reads(5) [OF assms]
  show ?thesis
    using assms
    by (auto simp: plot_balance_sheet_composition_def b p Let_def unaffected_write
             split: option.splits sum.splits)
qed

lemma composition_loop_unaffected:
  "unaffected c st st' \<Longrightarrow>
   \<exists>r s s'. composition_loop backend cs st = (r, s) \<and>
            composition_loop backend (removeAll c cs) st' = (r, s') \<and>
            unaffected c s s'"
proof (induction cs arbitrary: st st')
  case Nil
  then show ?case by simp
next
  case (Cons x cs)
  show ?case
  proof (cases "x = c")
    case True
    from Cons.prems have "map_of (balance_sheets st) c = None" by (simp add: unaffected_def)
    from plot_composition_absent [OF this]
    have step: "composition_loop backend (c # cs) st =
        composition_loop backend cs (say (Print (''No data available for '' @ c)) st)"
      by simp
    from Cons.prems have "unaffected c (say (Print (''No data available for '' @ c)) st) st'"
      by simp
    from Cons.IH [OF this] show ?thesis
      unfolding True step by simp
  next
    case False
    from plot_composition_unaffected [OF Cons.prems, of backend x] obtain r st1 st1' where
      p: "plot_balance_sheet_composition backend x st = (r, st1)"
         "plot_balance_sheet_composition backend x st' = (r, st1')"
      and u: "unaffected c st1 st1'"
      by blast
    show ?thesis
    proof (cases r)
      case (Inl e)
      with p u False show ?thesis by simp
    next
      case (Inr res)
      show ?thesis
      proof (cases res)
        case None
        from Cons.IH [OF u] show ?thesis
          using p False by (simp add: Inr None)
      next
        case (Some path)
        let ?m = "Print (''  Saved '' @ x @ '' balance sheet composition: '' @ path)"
        have u': "unaffected c (if path \<noteq> [] then say ?m st1 else st1)
                              (if path \<noteq> [] then say ?m st1' else st1')"
          using u by simp
        from Cons.IH [OF u'] show ?thesis
          using p False by (simp add: Inr Some)
      qed
    qed
  qed
qed

lemma composition_step_unaffected:
  assumes "unaffected c st st'"
  shows "unaffected c (composition_step backend now st) (composition_step backend now st')"
proof -
  let ?m = "Print ''- Generating balance sheet composition charts...''"
  from assms have u0: "unaffected c (say ?m st) (say ?m st')" by simp
  from assms have cs: "companies st' = removeAll c (companies st)" by (simp add: unaffected_def)
  from composition_loop_unaffected [OF u0, of backend "companies st"] obtain r s s' where
    l: "composition_loop backend (companies st) (say ?m st) = (r, s)"
       "composition_loop backend (companies st') (say ?m st') = (r, s')"
    and u: "unaffected c s s'"
    by (auto simp: cs)
  show ?thesis
    using u by (cases r)
      (simp_all add: composition_step_def Let_def l unaffected_handler report_step_unaffected)
qed

lemma radar_step_unaffected:
  assumes "unaffected c st st'"
  shows "unaffected c (radar_step backend now st) (radar_step backend now st')"
proof -
  let ?m = "Print ''- Generating financial ratios radar chart...''"
  from assms have u0: "unaffected c (say ?m st) (say ?m st')" by simp
  note r = unaffected_reads(2,3,5) [OF assms]
  show ?thesis
    using assms u0
    by (auto simp: radar_step_def plot_debt_ratio_radar_def Let_def r unaffected_handler
          unaffected_write composition_step_unaffected
        split: sum.splits option.splits)
qed

lemma line_step_unaffected:
  assumes "unaffected c st st'"
  shows "unaffected c (line_step backend now st) (line_step backend now st')"
proof -
  note r = unaffected_reads(1,5) [OF assms]
  show ?thesis
    using assms
    by (auto simp: line_step_def plot_current_ratio_comparison_def Let_def r unaffected_handler
          unaffected_write radar_step_unaffected
        split: option.splits)
qed

lemma fetch_fold_sheets_removeAll:
  assumes "src c = Inr bs" and "empty_frame bs"
  shows "balance_sheets st' = balance_sheets st \<Longrightarrow>
         balance_sheets (fold (fetch_one src) (removeAll c cs) st')
           = balance_sheets (fold (fetch_one src) cs st)"
proof (induction cs arbitrary: st st')
  case Nil
  then show ?case by simp
next
  case (Cons x cs)
  show ?case
  proof (cases "x = c")
    case True
    have "balance_sheets st' = balance_sheets (fetch_one src c st)"
      using Cons.prems assms by (simp add: fetch_one_sheets)
    from Cons.IH [OF this] show ?thesis by (simp add: True)
  next
    case False
    have "balance_sheets (fetch_one src x st') = balance_sheets (fetch_one src x st)"
      using Cons.prems by (simp add: fetch_one_sheets split: sum.splits)
    from Cons.IH [OF this] show ?thesis using False by simp
  qed
qed

lemma fetch_fold_absent:
  assumes "src c = Inr bs" and "empty_frame bs"
  shows "map_of (balance_sheets st) c = None \<Longrightarrow>
         map_of (balance_sheets (fold (fetch_one src) cs st)) c = None"
proof (induction cs arbitrary: st)
  case Nil
  then show ?case by simp
next
  case (Cons x cs)
  have "map_of (balance_sheets (fetch_one src x st)) c = None"
    using Cons.prems assms
    by (cases "x = c") (auto simp: fetch_one_sheets update_conv' split: sum.splits)
  from Cons.IH [OF this] show ?case by simp
qed

lemma calc_fold_absent:
  "map_of (ratios st) c = None \<Longrightarrow> map_of bss c = None \<Longrightarrow>
   map_of (ratios (fold calc_one bss st)) c = None"
proof (induction bss arbitrary: st)
  case Nil
  then show ?case by simp
next
  case (Cons kv bss)
  obtain x bs where kv: "kv = (x, bs)" by (cases kv)
  from Cons.prems(2) have ne: "x \<noteq> c" and rest: "map_of bss c = None"
    by (auto simp: kv split: if_splits)
  have "map_of (ratios (calc_one kv st)) c = None"
    using Cons.prems(1) ne by (simp add: kv calc_one_ratios)
  from Cons.IH [OF this rest] show ?case by simp
qed

lemma fetched_absent:
  assumes "src c = Inr bs" and "empty_frame bs" and "map_of (balance_sheets st) c = None"
  shows "map_of (balance_sheets (fetch_data src st)) c = None"
  unfolding fetch_data_def by (rule fetch_fold_absent [where src = src and c = c, OF assms])

lemma calculated_absent:
  assumes "map_of (ratios st) c = None" and "map_of (balance_sheets st) c = None"
  shows "map_of (ratios (calculate_financial_ratios st)) c = None"
  unfolding calculate_financial_ratios_def by (rule calc_fold_absent [OF assms])

lemma prepare_unaffected:
  assumes "src c = Inr bs" and "empty_frame bs" and "unaffected c s s'"
  shows "unaffected c (calculate_financial_ratios (say m (fetch_data src s)))
                      (calculate_financial_ratios (say m (fetch_data src s')))"
proof -
  let ?f = "say m (fetch_data src s)" and ?f' = "say m (fetch_data src s')"
  from assms(3) have u: "companies s' = removeAll c (companies s)"
    "balance_sheets s' = balance_sheets s" "ratios s' = ratios s"
    "base_path s' = base_path s" "files s' = files s"
    "map_of (balance_sheets s) c = None" "map_of (ratios s) c = None"
    by (simp_all add: unaffected_def)
  have b: "balance_sheets ?f' = balance_sheets ?f"
    using fetch_fold_sheets_removeAll
            [where src = src and c = c and cs = "companies s", OF assms(1,2) u(2)]
    by (simp add: fetch_data_def u(1))
  have r: "ratios ?f' = ratios ?f" by (simp add: u(3))
  have nb: "map_of (balance_sheets ?f) c = None"
    using fetched_absent [where src = src and c = c, OF assms(1,2) u(6)] by simp
  have nr: "map_of (ratios ?f) c = None" by (simp add: u(7))
  show ?thesis
    unfolding unaffected_def
    using calculate_ratios_cong [OF b r] calculated_absent [OF nr nb] nb b
    by (simp add: u)
qed

lemma run_unaffected:
  assumes "src c = Inr bs" and "empty_frame bs"
  shows "unaffected c (run src backend now base cs) (run src backend now base (removeAll c cs))"
proof -
  let ?s = "say (Print ''\<newline>Fetching financial data...'')
              (say (Print ''Initializing analyzer...'') (init base cs))"
  let ?s' = "say (Print ''\<newline>Fetching financial data...'')
              (say (Print ''Initializing analyzer...'') (init base (removeAll c cs)))"
  have "unaffected c ?s ?s'" by (simp add: unaffected_def init_def)
  from line_step_unaffected [OF prepare_unaffected [where src = src and c = c, OF assms this]]
  show ?thesis
    by (simp add: run_def Let_def)
qed

lemma solo_fetched:
  "balance_sheets (fetch_data solo_src (init ''.'' [''GONE'', ''SOLO'']))
     = balance_sheets solo_state"
  by (simp add: fetch_data_def fetch_one_sheets solo_src_def init_def solo_state_def
      empty_frame_def solo_frame_def)

subsection \<open>Well-formed tables\<close>

lemma rectangular_row:
  "rectangular bs \<Longrightarrow> map_of (rows bs) l = Some vs \<Longrightarrow> length vs = length (columns bs)"
proof -
  assume r: "rectangular bs" and m: "map_of (rows bs) l = Some vs"
  from m have "(l, vs) \<in> set (rows bs)" by (rule map_of_SomeD)
  then have "vs \<in> snd ` set (rows bs)" by force
  with r show ?thesis unfolding rectangular_def by blast
qed

lemma less_inventory_length:
  "rectangular bs \<Longrightarrow> length ca = length (columns bs) \<Longrightarrow>
   length (less_inventory bs ca) = length (columns bs)"
  by (auto simp: less_inventory_def dest: rectangular_row split: option.splits)

lemma company_ratios_wf:
  assumes "rectangular bs" and "company_ratios bs = Inr r"
  shows "wf_table r \<and> r_index r = columns bs"
proof -
  from company_ratios_Inr [OF assms(2)] obtain ca cl ta tli se where
    rows: "map_of (rows bs) ''Current Assets'' = Some ca"
      "map_of (rows bs) ''Current Liabilities'' = Some cl"
      "map_of (rows bs) ''Total Assets'' = Some ta"
      "map_of (rows bs) ''Total Liabilities Net Minority Interest'' = Some tli"
      "map_of (rows bs) ''Stockholders Equity'' = Some se"
    and r: "r = \<lparr>r_index = columns bs,
          Current_Ratio = map2 fdiv ca cl,
          Quick_Ratio = map2 fdiv (less_inventory bs ca) cl,
          Debt_to_Assets = map2 fdiv tli ta,
          Equity_Multiplier = map2 fdiv ta se\<rparr>"
    by blast
  note len = rows [THEN rectangular_row [OF assms(1)]]
  show ?thesis
    by (simp add: r wf_table_def len less_inventory_length [OF assms(1) len(1)])
qed

lemma at_period_first:
  "vs \<noteq> [] \<Longrightarrow> at_period (d # ds) vs d = Inr (hd vs)"
  by (cases vs) (simp_all add: at_period_def)

lemma company_section_total:
  assumes "wf_table r" and "r_index r \<noteq> []"
  shows "\<exists>sec. company_section company r = Inr sec"
proof -
  from assms(2) obtain d ds where idx: "r_index r = d # ds" by (cases "r_index r") auto
  with assms(1) have ne: "Current_Ratio r \<noteq> []" "Quick_Ratio r \<noteq> []"
    "Debt_to_Assets r \<noteq> []" "Equity_Multiplier r \<noteq> []"
    by (auto simp: wf_table_def)
  show ?thesis
    by (simp add: company_section_def idx first_label_def at_period_first ne)
qed

lemma report_sections_total:
  "\<forall>c \<in> set cs. \<forall>r. map_of rs c = Some r \<longrightarrow> wf_table r \<and> r_index r \<noteq> [] \<Longrightarrow>
   \<exists>secs. report_sections rs cs = Inr secs"
proof (induction cs)
  case Nil
  then show ?case by simp
next
  case (Cons c cs)
  then obtain rest where rest: "report_sections rs cs = Inr rest" by auto
  show ?case
  proof (cases "map_of rs c")
    case None
    with rest show ?thesis by simp
  next
    case (Some r)
    with Cons.prems have "wf_table r" "r_index r \<noteq> []" by auto
    from company_section_total [OF this] obtain sec where "company_section c r = Inr sec" ..
    with rest Some show ?thesis by simp
  qed
qed

lemma report_generated:
  "tables_ok st \<Longrightarrow> \<exists>rep. generate_analysis_report now st = Inr rep"
proof -
  assume "tables_ok st"
  then have "\<exists>secs. report_sections (ratios st) (companies st) = Inr secs"
    unfolding tables_ok_def by (rule report_sections_total)
  then show ?thesis by (auto simp: generate_analysis_report_def)
qed

text \<open>Where the entries of the two dictionaries come from.\<close>

lemma set_update_subset: "set (AList.update k v al) \<subseteq> insert (k, v) (set al)"
  by (induction al) auto

lemma fetched_sheets_origin:
  "(c, bs) \<in> set (balance_sheets (fold (fetch_one src) cs st)) \<Longrightarrow>
   (c, bs) \<in> set (balance_sheets st) \<or> (src c = Inr bs \<and> \<not> empty_frame bs)"
proof (induction cs arbitrary: st)
  case Nil
  then show ?case by simp
next
  case (Cons x cs)
  from Cons.IH [of "fetch_one src x st"] Cons.prems
  have "(c, bs) \<in> set (balance_sheets (fetch_one src x st)) \<or>
        (src c = Inr bs \<and> \<not> empty_frame bs)"
    by simp
  then show ?case
    using set_update_subset [of x _ "balance_sheets st"]
    by (auto simp: fetch_one_sheets split: sum.splits if_splits)
qed

lemma calculated_ratios_origin:
  "(c, r) \<in> set (ratios (fold calc_one bss st)) \<Longrightarrow>
   (c, r) \<in> set (ratios st) \<or> (\<exists>bs. (c, bs) \<in> set bss \<and> company_ratios bs = Inr r)"
proof (induction bss arbitrary: st)
  case Nil
  then show ?case by simp
next
  case (Cons kv bss)
  obtain x bs where kv: "kv = (x, bs)" by (cases kv)
  from Cons.IH [of "calc_one kv st"] Cons.prems
  have "(c, r) \<in> set (ratios (calc_one kv st)) \<or>
        (\<exists>bs. (c, bs) \<in> set bss \<and> company_ratios bs = Inr r)"
    by simp
  then show ?case
    using set_update_subset [of x _ "ratios st"]
    by (auto simp: kv ratios_calc_one split: sum.splits)
qed

lemma pipeline_tables_ok:
  assumes "\<forall>c b. src c = Inr b \<longrightarrow> rectangular b"
    and "balance_sheets s = []" and "ratios s = []"
  shows "tables_ok (calculate_financial_ratios (fetch_data src s))"
  unfolding tables_ok_def
proof (intro ballI allI impI)
  fix company r
  assume "map_of (ratios (calculate_financial_ratios (fetch_data src s))) company = Some r"
  then have "(company, r) \<in> set (ratios (calculate_financial_ratios (fetch_data src s)))"
    by (rule map_of_SomeD)
  from calculated_ratios_origin [OF this [unfolded calculate_financial_ratios_def]]
  obtain bs where bs: "(company, bs) \<in> set (balance_sheets (fetch_data src s))"
    and r: "company_ratios bs = Inr r"
    by (auto simp: assms(3))
  from fetched_sheets_origin [OF bs [unfolded fetch_data_def]]
  have src: "src company = Inr bs" and ne: "\<not> empty_frame bs"
    by (simp_all add: assms(2))
  from src assms(1) have "rectangular bs" by blast
  from company_ratios_wf [OF this r] ne
  show "wf_table r \<and> r_index r \<noteq> []"
    by (simp add: empty_frame_def)
qed

lemma company_ratios_columns:
  assumes "company_ratios bs = Inr r"
  shows "\<exists>ca cl ta tli se.
     map_of (rows bs) ''Current Assets'' = Some ca \<and>
     map_of (rows bs) ''Current Liabilities'' = Some cl \<and>
     map_of (rows bs) ''Total Assets'' = Some ta \<and>
     map_of (rows bs) ''Total Liabilities Net Minority Interest'' = Some tli \<and>
     map_of (rows bs) ''Stockholders Equity'' = Some se \<and>
     Current_Ratio r = map2 fdiv ca cl \<and>
     Debt_to_Assets r = map2 fdiv tli ta \<and>
     Equity_Multiplier r = map2 fdiv ta se"
proof -
  from company_ratios_Inr [OF assms] obtain ca cl ta tli se where
    rows: "map_of (rows bs) ''Current Assets'' = Some ca"
      "map_of (rows bs) ''Current Liabilities'' = Some cl"
      "map_of (rows bs) ''Total Assets'' = Some ta"
      "map_of (rows bs) ''Total Liabilities Net Minority Interest'' = Some tli"
      "map_of (rows bs) ''Stockholders Equity'' = Some se"
    and r: "r = \<lparr>r_index = columns bs,
          Current_Ratio = map2 fdiv ca cl,
          Quick_Ratio = map2 fdiv (less_inventory bs ca) cl,
          Debt_to_Assets = map2 fdiv tli ta,
          Equity_Multiplier = map2 fdiv ta se\<rparr>"
    by blast
  have "Current_Ratio r = map2 fdiv ca cl" "Debt_to_Assets r = map2 fdiv tli ta"
    "Equity_Multiplier r = map2 fdiv ta se"
    by (simp_all add: r)
  with rows show ?thesis by blast
qed

text \<open>
  With the five rows present the body raises in one case only: the rows are of dtype
  object and a divisor is 0.
\<close>

lemma company_ratios_present:
  assumes "rectangular bs"
    and "map_of (rows bs) ''Current Assets'' = Some ca"
    and "map_of (rows bs) ''Current Liabilities'' = Some cl"
    and "map_of (rows bs) ''Total Assets'' = Some ta"
    and "map_of (rows bs) ''Total Liabilities Net Minority Interest'' = Some tli"
    and "map_of (rows bs) ''Stockholders Equity'' = Some se"
  shows "company_ratios bs =
     (if dtype bs = Object \<and> (Fin 0 \<in> set cl \<or> Fin 0 \<in> set ta \<or> Fin 0 \<in> set se)
      then Inl ZeroDivisionError
      else Inr \<lparr>r_index = columns bs,
                Current_Ratio = map2 fdiv ca cl,
                Quick_Ratio = map2 fdiv (less_inventory bs ca) cl,
                Debt_to_Assets = map2 fdiv tli ta,
                Equity_Multiplier = map2 fdiv ta se\<rparr>)"
proof -
  note len = assms(2-6) [THEN rectangular_row [OF assms(1)]]
  note li = less_inventory_length [OF assms(1) len(1)]
  have d: "truediv (dtype bs) ca cl =
             (if dtype bs = Object \<and> Fin 0 \<in> set cl then Inl ZeroDivisionError
              else Inr (map2 fdiv ca cl))"
    "truediv (dtype bs) (less_inventory bs ca) cl =
             (if dtype bs = Object \<and> Fin 0 \<in> set cl then Inl ZeroDivisionError
              else Inr (map2 fdiv (less_inventory bs ca) cl))"
    "truediv (dtype bs) tli ta =
             (if dtype bs = Object \<and> Fin 0 \<in> set ta then Inl ZeroDivisionError
              else Inr (map2 fdiv tli ta))"
    "truediv (dtype bs) ta se =
             (if dtype bs = Object \<and> Fin 0 \<in> set se then Inl ZeroDivisionError
              else Inr (map2 fdiv ta se))"
    by (simp_all add: truediv_aligned len li)
  show ?thesis
    unfolding company_ratios_def loc_def assms(2-6) option.case bind_err_simps d
    by simp
qed

lemma zero_denominator_rows:
  assumes "map_of (rows bs) ''Current Liabilities'' = Some cl"
    and "map_of (rows bs) ''Total Assets'' = Some ta"
    and "map_of (rows bs) ''Stockholders Equity'' = Some se"
  shows "zero_denominator bs = (Fin 0 \<in> set cl \<or> Fin 0 \<in> set ta \<or> Fin 0 \<in> set se)"
  by (simp add: zero_denominator_def denominators_def assms)

lemma company_ratios_skips:
  assumes "rectangular bs"
  shows "(\<exists>e. company_ratios bs = Inl e) =
           ((\<exists>l \<in> set required_items. map_of (rows bs) l = None) \<or>
            (dtype bs = Object \<and> zero_denominator bs))"
proof (cases "\<exists>l \<in> set required_items. map_of (rows bs) l = None")
  case True
  have "company_ratios bs \<noteq> Inr r" for r
  proof
    assume "company_ratios bs = Inr r"
    from company_ratios_Inr [OF this] True show False
      by (auto simp: required_items_def)
  qed
  then have "\<exists>e. company_ratios bs = Inl e"
    by (cases "company_ratios bs") auto
  with True show ?thesis by simp
next
  case False
  then obtain ca cl ta tli se where
    rows: "map_of (rows bs) ''Current Assets'' = Some ca"
      "map_of (rows bs) ''Current Liabilities'' = Some cl"
      "map_of (rows bs) ''Total Assets'' = Some ta"
      "map_of (rows bs) ''Total Liabilities Net Minority Interest'' = Some tli"
      "map_of (rows bs) ''Stockholders Equity'' = Some se"
    by (auto simp: required_items_def)
  show ?thesis
    using False
    by (simp add: company_ratios_present [OF assms rows]
        zero_denominator_rows [OF rows(2,3,5)])
qed

lemma company_ratios_zero_division:
  assumes "rectangular bs" and "\<forall>l \<in> set required_items. map_of (rows bs) l \<noteq> None"
    and "dtype bs = Object" and "zero_denominator bs"
  shows "company_ratios bs = Inl ZeroDivisionError"
proof -
  from assms(2) obtain ca cl ta tli se where
    rows: "map_of (rows bs) ''Current Assets'' = Some ca"
      "map_of (rows bs) ''Current Liabilities'' = Some cl"
      "map_of (rows bs) ''Total Assets'' = Some ta"
      "map_of (rows bs) ''Total Liabilities Net Minority Interest'' = Some tli"
      "map_of (rows bs) ''Stockholders Equity'' = Some se"
    by (auto simp: required_items_def)
  from assms(3,4) show ?thesis
    by (simp add: company_ratios_present [OF assms(1) rows]
        zero_denominator_rows [OF rows(2,3,5)])
qed

lemma void_state_fields:
  "distinct (map fst (balance_sheets void_state))"
  "ratios void_state = []"
  "map_of (balance_sheets void_state) ''VOID'' = Some void_frame"
  by (simp_all add: void_state_def init_def)

lemma example_frames_rectangular:
  "rectangular idle_frame" "rectangular void_frame" "rectangular bare_frame"
  by (simp_all add: rectangular_def idle_frame_def void_frame_def bare_frame_def)

lemma zero_denominator_entry:
  "i < length (map2 fdiv xs ys) \<Longrightarrow> ys ! i = Fin 0 \<Longrightarrow>
   map2 fdiv xs ys ! i \<in> {PInf, NInf, NaN}"
  using fdiv_by_zero [of "xs ! i"] by simp

text \<open>
  After the fetch, started from an empty dictionary, every stored balance sheet has a row
  and a column: the hypothesis under which the composition charts cannot abort the run.
\<close>

lemma fetched_sheets_nonempty:
  assumes "balance_sheets s = []"
  shows "\<forall>bs \<in> snd ` set (balance_sheets (fetch_data src s)). columns bs \<noteq> []"
proof
  fix bs assume "bs \<in> snd ` set (balance_sheets (fetch_data src s))"
  then obtain c where "(c, bs) \<in> set (balance_sheets (fold (fetch_one src) (companies s) s))"
    by (auto simp: fetch_data_def)
  from fetched_sheets_origin [OF this] have "\<not> empty_frame bs"
    by (simp add: assms)
  then show "columns bs \<noteq> []" by (simp add: empty_frame_def)
qed

lemma run_sheets_nonempty:
  "\<forall>bs \<in> snd ` set (balance_sheets
      (calculate_financial_ratios (say m (fetch_data src (say x (say y (init base cs))))))).
     columns bs \<noteq> []"
  using fetched_sheets_nonempty [of "say x (say y (init base cs))" src]
  by (simp add: init_def)

lemma radar_latest_is_first:
  assumes "available_companies st = company # others"
    and "map_of (ratios st) company = Some r0" and "r_index r0 = d # ds"
  shows "radar_chart st = radar_chart_at st d"
proof -
  have "radar_latest_date st = Inr d"
    using assms by (simp add: radar_latest_date_def first_label_def)
  then show ?thesis by (simp add: radar_chart_def)
qed

text \<open>
  When a plotted company has no column for the period of the first one, the lookup by
  label raises and \<^verbatim>\<open>plot_debt_ratio_radar\<close> writes nothing.
\<close>

lemma radar_chart_missing_period:
  assumes "available_companies st = company # others"
    and "map_of (ratios st) company = Some r0" and "r_index r0 = d # ds"
    and miss: "\<exists>c \<in> set (available_companies st).
             \<exists>r. map_of (ratios st) c = Some r \<and> d \<notin> set (r_index r)"
  shows "radar_chart st = Inl (KeyError_period d)"
    and "plot_debt_ratio_radar backend st = (Inl (KeyError_period d), st)"
proof -
  note chart = radar_latest_is_first [OF assms(1-3)]
  have "radar_polygons (ratios st) d (available_companies st) = Inl (KeyError_period d)"
  proof (cases "radar_polygons (ratios st) d (available_companies st)")
    case (Inl e)
    from radar_polygons_Inl [OF Inl] have "e = KeyError_period d"
      by (simp add: available_has_table)
    with Inl show ?thesis by simp
  next
    case (Inr ps)
    from miss obtain c r where
      c: "c \<in> set (available_companies st)" "map_of (ratios st) c = Some r"
         "d \<notin> set (r_index r)" by blast
    from radar_polygons_Inr [OF Inr] c(1) have "c \<in> fst ` set ps"
      by (metis list.set_map)
    then obtain vs where "(c, vs) \<in> set ps" by auto
    with radar_polygons_Inr [OF Inr] c(2) have "\<exists>vs. radar_values r d = Inr vs"
      by auto
    with c(3) show ?thesis by (auto dest: radar_values_Inr)
  qed
  then show e: "radar_chart st = Inl (KeyError_period d)"
    by (simp add: chart radar_chart_at_def)
  show "plot_debt_ratio_radar backend st = (Inl (KeyError_period d), st)"
    using assms(1) by (simp add: plot_debt_ratio_radar_def e)
qed

section \<open>The claims\<close>

text \<open>
  C1. For a company whose balance sheet has the rows Current Assets and Current
  Liabilities, the ratio table that \<^verbatim>\<open>calculate_financial_ratios\<close> stores for it has the
  periods of the balance sheet as its index and, in every period, Current_Ratio is the
  quotient of the two rows; where both values are finite and the denominator is not zero
  this is the real quotient. The table exists as soon as the other three required rows
  are present too and, should the rows be of dtype object, none of the three divisors
  holds a 0.
\<close>

theorem current_ratio_is_quotient:
  assumes "distinct (map fst (balance_sheets st))" and "ratios st = []"
    and "map_of (balance_sheets st) company = Some bs"
    and "map_of (rows bs) ''Current Assets'' = Some ca"
    and "map_of (rows bs) ''Current Liabilities'' = Some cl"
    and "length ca = length (columns bs)" and "length cl = length (columns bs)"
  shows "(\<forall>r. map_of (ratios (calculate_financial_ratios st)) company = Some r \<longrightarrow>
            r_index r = columns bs \<and> length (Current_Ratio r) = length (columns bs) \<and>
            (\<forall>i < length (columns bs).
               Current_Ratio r ! i = fdiv (ca ! i) (cl ! i) \<and>
               (\<forall>a b. ca ! i = Fin a \<and> cl ! i = Fin b \<and> b \<noteq> 0 \<longrightarrow>
                  Current_Ratio r ! i = Fin (a / b)))) \<and>
         (\<forall>ta tli se.
            map_of (rows bs) ''Total Assets'' = Some ta \<and>
            map_of (rows bs) ''Total Liabilities Net Minority Interest'' = Some tli \<and>
            map_of (rows bs) ''Stockholders Equity'' = Some se \<and>
            (dtype bs = Float64 \<or>
             (Fin 0 \<notin> set cl \<and> Fin 0 \<notin> set ta \<and> Fin 0 \<notin> set se)) \<longrightarrow>
            map_of (ratios (calculate_financial_ratios st)) company \<noteq> None)"
proof (intro conjI allI impI)
  fix r assume r: "map_of (ratios (calculate_financial_ratios st)) company = Some r"
  then have "company_ratios bs = Inr r"
    using assms(1-3) by (simp add: calculate_ratios_lookup split: sum.splits)
  from company_ratios_Inr [OF this] assms(4,5)
  have idx: "r_index r = columns bs" and cr: "Current_Ratio r = map2 fdiv ca cl"
    by auto
  show "r_index r = columns bs" by (rule idx)
  show "length (Current_Ratio r) = length (columns bs)"
    using assms(6,7) by (simp add: cr)
  fix i assume i: "i < length (columns bs)"
  show q: "Current_Ratio r ! i = fdiv (ca ! i) (cl ! i)"
    using i assms(6,7) by (simp add: cr)
  fix a b assume "ca ! i = Fin a \<and> cl ! i = Fin b \<and> b \<noteq> 0"
  then show "Current_Ratio r ! i = Fin (a / b)"
    by (simp add: q)
next
  fix ta tli se
  assume "map_of (rows bs) ''Total Assets'' = Some ta \<and>
          map_of (rows bs) ''Total Liabilities Net Minority Interest'' = Some tli \<and>
          map_of (rows bs) ''Stockholders Equity'' = Some se \<and>
          (dtype bs = Float64 \<or>
           (Fin 0 \<notin> set cl \<and> Fin 0 \<notin> set ta \<and> Fin 0 \<notin> set se))"
  then have
    "map_of (rows bs) ''Total Assets'' = Some ta"
    "map_of (rows bs) ''Total Liabilities Net Minority Interest'' = Some tli"
    "map_of (rows bs) ''Stockholders Equity'' = Some se"
    "dtype bs = Float64 \<or> (Fin 0 \<notin> set cl \<and> Fin 0 \<notin> set ta \<and> Fin 0 \<notin> set se)"
    by blast+
  from company_ratios_complete [OF assms(4,5) this]
  show "map_of (ratios (calculate_financial_ratios st)) company \<noteq> None"
    using assms(1-3) by (simp add: calculate_ratios_lookup)
qed

theorem current_ratio_is_quotient_witness:
  "\<exists>r. map_of (ratios (calculate_financial_ratios acme_state)) ''ACME'' = Some r \<and>
       r_index r = [20240930, 20240630] \<and>
       Current_Ratio r ! 0 = Fin 2 \<and> Current_Ratio r ! 1 = Fin 3"
proof -
  note t = current_ratio_is_quotient [OF acme_state_fields(1-3) acme_frame_rows(1,2)]
  have len: "length [Fin 200, Fin 150] = length (columns acme_frame)"
            "length [Fin 100, Fin 50] = length (columns acme_frame)"
    by (simp_all add: acme_frame_rows)
  from t [OF len] obtain r where
    r: "map_of (ratios (calculate_financial_ratios acme_state)) ''ACME'' = Some r"
    by (auto simp: acme_frame_rows)
  from t [OF len] r have
    "r_index r = columns acme_frame"
    "\<forall>i < length (columns acme_frame).
       Current_Ratio r ! i = fdiv ([Fin 200, Fin 150] ! i) ([Fin 100, Fin 50] ! i)"
    by blast+
  then have "r_index r = [20240930, 20240630]"
    "Current_Ratio r ! 0 = Fin 2" "Current_Ratio r ! 1 = Fin 3"
    by (simp_all add: acme_frame_rows)
  with r show ?thesis by blast
qed

text \<open>
  C2 as stated fails: on rows of dtype float64 a zero denominator raises nothing. The
  company IDLE has such rows, Current Liabilities 0 in its only period, and still gets a
  ratio table, whose Current_Ratio is infinite there.
\<close>

theorem zero_denominator_counterexample:
  "distinct (map fst (balance_sheets trio_state)) \<and> ratios trio_state = [] \<and>
   map_of (balance_sheets trio_state) ''IDLE'' = Some idle_frame \<and>
   dtype idle_frame = Float64 \<and>
   map_of (rows idle_frame) ''Current Liabilities'' = Some [Fin 0] \<and>
   map_of (ratios (calculate_financial_ratios trio_state)) ''IDLE'' =
     Some \<lparr>r_index = [20240930], Current_Ratio = [PInf], Quick_Ratio = [PInf],
           Debt_to_Assets = [Fin 0], Equity_Multiplier = [Fin 1]\<rparr>"
  by (simp add: calculate_ratios_lookup trio_state_fields)
     (simp add: idle_frame_def company_ratios_def loc_def less_inventory_def truediv_def)

text \<open>
  C2, amended. A company with a fetched balance sheet gets no entry in the ratio table
  exactly when something is raised while its ratios are computed: one of the five
  required line items is missing, or the rows are of dtype object and Current
  Liabilities, Total Assets or Stockholders Equity is 0 in some period, where the
  division raises ZeroDivisionError. On rows of dtype float64 a zero denominator does
  not skip the company: with the five line items present the table is stored, and the
  ratio with that denominator is an infinity or NaN.
\<close>

theorem skipped_iff_raised:
  assumes "distinct (map fst (balance_sheets st))" and "ratios st = []"
    and "map_of (balance_sheets st) company = Some bs" and "rectangular bs"
  shows "(map_of (ratios (calculate_financial_ratios st)) company = None) =
           ((\<exists>l \<in> set required_items. map_of (rows bs) l = None) \<or>
            (dtype bs = Object \<and> zero_denominator bs)) \<and>
         ((\<forall>l \<in> set required_items. map_of (rows bs) l \<noteq> None) \<and>
          dtype bs = Object \<and> zero_denominator bs \<longrightarrow>
            company_ratios bs = Inl ZeroDivisionError) \<and>
         ((\<forall>l \<in> set required_items. map_of (rows bs) l \<noteq> None) \<and> dtype bs = Float64 \<longrightarrow>
            map_of (ratios (calculate_financial_ratios st)) company \<noteq> None) \<and>
         (\<forall>r cl i. map_of (ratios (calculate_financial_ratios st)) company = Some r \<and>
            map_of (rows bs) ''Current Liabilities'' = Some cl \<and>
            i < length (Current_Ratio r) \<and> cl ! i = Fin 0 \<longrightarrow>
            dtype bs = Float64 \<and> Current_Ratio r ! i \<in> {PInf, NInf, NaN}) \<and>
         (\<forall>r ta i. map_of (ratios (calculate_financial_ratios st)) company = Some r \<and>
            map_of (rows bs) ''Total Assets'' = Some ta \<and>
            i < length (Debt_to_Assets r) \<and> ta ! i = Fin 0 \<longrightarrow>
            dtype bs = Float64 \<and> Debt_to_Assets r ! i \<in> {PInf, NInf, NaN}) \<and>
         (\<forall>r se i. map_of (ratios (calculate_financial_ratios st)) company = Some r \<and>
            map_of (rows bs) ''Stockholders Equity'' = Some se \<and>
            i < length (Equity_Multiplier r) \<and> se ! i = Fin 0 \<longrightarrow>
            dtype bs = Float64 \<and> Equity_Multiplier r ! i \<in> {PInf, NInf, NaN})"
proof -
  let ?st = "calculate_financial_ratios st"
  have found: "company_ratios bs = Inr r" if "map_of (ratios ?st) company = Some r" for r
    using that assms(1-3) by (simp add: calculate_ratios_lookup split: sum.splits)
  have "(map_of (ratios ?st) company = None) = (\<exists>e. company_ratios bs = Inl e)"
    using assms(1-3) by (simp add: calculate_ratios_lookup split: sum.splits)
  then have 1: "(map_of (ratios ?st) company = None) =
           ((\<exists>l \<in> set required_items. map_of (rows bs) l = None) \<or>
            (dtype bs = Object \<and> zero_denominator bs))"
    by (simp add: company_ratios_skips [OF assms(4)])
  have 2: "(\<forall>l \<in> set required_items. map_of (rows bs) l \<noteq> None) \<and>
          dtype bs = Object \<and> zero_denominator bs \<longrightarrow>
            company_ratios bs = Inl ZeroDivisionError"
    using company_ratios_zero_division [OF assms(4)] by blast
  have 3: "(\<forall>l \<in> set required_items. map_of (rows bs) l \<noteq> None) \<and> dtype bs = Float64 \<longrightarrow>
            map_of (ratios ?st) company \<noteq> None"
    using 1 by auto
  have float: "dtype bs = Float64"
    if "map_of (ratios ?st) company = Some r" and "map_of (rows bs) l = Some vs"
      and "l \<in> set denominators" and "i < length (columns bs)" and "vs ! i = Fin 0"
    for r l vs i
  proof -
    from that(2) have "length vs = length (columns bs)"
      by (rule rectangular_row [OF assms(4)])
    with that(4,5) have "Fin 0 \<in> set vs"
      by (metis nth_mem)
    with that(2,3) have "zero_denominator bs"
      unfolding zero_denominator_def by force
    with 1 that(1) show ?thesis
      by (cases "dtype bs") auto
  qed
  have wf: "wf_table r \<and> r_index r = columns bs" if "map_of (ratios ?st) company = Some r" for r
    by (rule company_ratios_wf [OF assms(4) found [OF that]])
  have 4: "\<forall>r cl i. map_of (ratios ?st) company = Some r \<and>
            map_of (rows bs) ''Current Liabilities'' = Some cl \<and>
            i < length (Current_Ratio r) \<and> cl ! i = Fin 0 \<longrightarrow>
            dtype bs = Float64 \<and> Current_Ratio r ! i \<in> {PInf, NInf, NaN}"
  proof (intro allI impI, elim conjE)
    fix r cl i
    assume r: "map_of (ratios ?st) company = Some r"
      and row: "map_of (rows bs) ''Current Liabilities'' = Some cl"
      and i: "i < length (Current_Ratio r)" and z: "cl ! i = Fin 0"
    from company_ratios_columns [OF found [OF r]] obtain ca cl' where
      "map_of (rows bs) ''Current Liabilities'' = Some cl'"
      and eq: "Current_Ratio r = map2 fdiv ca cl'" by blast
    with row have eq: "Current_Ratio r = map2 fdiv ca cl" by simp
    from wf [OF r] i have "i < length (columns bs)" by (simp add: wf_table_def)
    from float [OF r row _ this z] have "dtype bs = Float64"
      by (simp add: denominators_def)
    moreover from i z have "Current_Ratio r ! i \<in> {PInf, NInf, NaN}"
      unfolding eq by (rule zero_denominator_entry)
    ultimately show "dtype bs = Float64 \<and> Current_Ratio r ! i \<in> {PInf, NInf, NaN}" ..
  qed
  have 5: "\<forall>r ta i. map_of (ratios ?st) company = Some r \<and>
            map_of (rows bs) ''Total Assets'' = Some ta \<and>
            i < length (Debt_to_Assets r) \<and> ta ! i = Fin 0 \<longrightarrow>
            dtype bs = Float64 \<and> Debt_to_Assets r ! i \<in> {PInf, NInf, NaN}"
  proof (intro allI impI, elim conjE)
    fix r ta i
    assume r: "map_of (ratios ?st) company = Some r"
      and row: "map_of (rows bs) ''Total Assets'' = Some ta"
      and i: "i < length (Debt_to_Assets r)" and z: "ta ! i = Fin 0"
    from company_ratios_columns [OF found [OF r]] obtain tli ta' where
      "map_of (rows bs) ''Total Assets'' = Some ta'"
      and eq: "Debt_to_Assets r = map2 fdiv tli ta'" by blast
    with row have eq: "Debt_to_Assets r = map2 fdiv tli ta" by simp
    from wf [OF r] i have "i < length (columns bs)" by (simp add: wf_table_def)
    from float [OF r row _ this z] have "dtype bs = Float64"
      by (simp add: denominators_def)
    moreover from i z have "Debt_to_Assets r ! i \<in> {PInf, NInf, NaN}"
      unfolding eq by (rule zero_denominator_entry)
    ultimately show "dtype bs = Float64 \<and> Debt_to_Assets r ! i \<in> {PInf, NInf, NaN}" ..
  qed
  have 6: "\<forall>r se i. map_of (ratios ?st) company = Some r \<and>
            map_of (rows bs) ''Stockholders Equity'' = Some se \<and>
            i < length (Equity_Multiplier r) \<and> se ! i = Fin 0 \<longrightarrow>
            dtype bs = Float64 \<and> Equity_Multiplier r ! i \<in> {PInf, NInf, NaN}"
  proof (intro allI impI, elim conjE)
    fix r se i
    assume r: "map_of (ratios ?st) company = Some r"
      and row: "map_of (rows bs) ''Stockholders Equity'' = Some se"
      and i: "i < length (Equity_Multiplier r)" and z: "se ! i = Fin 0"
    from company_ratios_columns [OF found [OF r]] obtain ta se' where
      "map_of (rows bs) ''Stockholders Equity'' = Some se'"
      and eq: "Equity_Multiplier r = map2 fdiv ta se'" by blast
    with row have eq: "Equity_Multiplier r = map2 fdiv ta se" by simp
    from wf [OF r] i have "i < length (columns bs)" by (simp add: wf_table_def)
    from float [OF r row _ this z] have "dtype bs = Float64"
      by (simp add: denominators_def)
    moreover from i z have "Equity_Multiplier r ! i \<in> {PInf, NInf, NaN}"
      unfolding eq by (rule zero_denominator_entry)
    ultimately show "dtype bs = Float64 \<and> Equity_Multiplier r ! i \<in> {PInf, NInf, NaN}" ..
  qed
  show ?thesis
    by (intro conjI) (rule 1, rule 2, rule 3, rule 4, rule 5, rule 6)
qed

theorem skipped_iff_raised_witness:
  "map_of (ratios (calculate_financial_ratios trio_state)) ''BARE'' = None \<and>
   map_of (ratios (calculate_financial_ratios trio_state)) ''IDLE'' \<noteq> None \<and>
   map_of (ratios (calculate_financial_ratios void_state)) ''VOID'' = None \<and>
   company_ratios void_frame = Inl ZeroDivisionError"
proof -
  have bare: "\<exists>l \<in> set required_items. map_of (rows bare_frame) l = None"
    by (simp add: required_items_def bare_frame_def)
  have idle: "\<forall>l \<in> set required_items. map_of (rows idle_frame) l \<noteq> None"
    "dtype idle_frame = Float64"
    by (simp_all add: required_items_def idle_frame_def)
  have void: "\<forall>l \<in> set required_items. map_of (rows void_frame) l \<noteq> None"
    "dtype void_frame = Object" "zero_denominator void_frame"
    by (simp_all add: required_items_def zero_denominator_def denominators_def
        void_frame_def idle_frame_def)
  note b = skipped_iff_raised [OF trio_state_fields(1,2,4) example_frames_rectangular(3)]
  note i = skipped_iff_raised [OF trio_state_fields(1,2,3) example_frames_rectangular(1)]
  note v = skipped_iff_raised [OF void_state_fields example_frames_rectangular(2)]
  from conjunct1 [OF b] bare
  have 1: "map_of (ratios (calculate_financial_ratios trio_state)) ''BARE'' = None"
    by simp
  from conjunct1 [OF conjunct2 [OF conjunct2 [OF i]]] idle
  have 2: "map_of (ratios (calculate_financial_ratios trio_state)) ''IDLE'' \<noteq> None"
    by simp
  from conjunct1 [OF v] void
  have 3: "map_of (ratios (calculate_financial_ratios void_state)) ''VOID'' = None"
    by simp
  from conjunct1 [OF conjunct2 [OF v]] void
  have 4: "company_ratios void_frame = Inl ZeroDivisionError"
    by simp
  from 1 2 3 4 show ?thesis by simp
qed

text \<open>
  C3. In the ratio table of a company, Quick_Ratio equals Current_Ratio in every period
  when the balance sheet has no Inventory row, and in each period where the Inventory
  row holds 0.
\<close>

theorem quick_equals_current:
  assumes "distinct (map fst (balance_sheets st))" and "ratios st = []"
    and "map_of (balance_sheets st) company = Some bs"
    and "map_of (ratios (calculate_financial_ratios st)) company = Some r"
  shows "(map_of (rows bs) ''Inventory'' = None \<longrightarrow> Quick_Ratio r = Current_Ratio r) \<and>
         (\<forall>inventory i. map_of (rows bs) ''Inventory'' = Some inventory \<and>
            i < length (Current_Ratio r) \<and> i < length inventory \<and> inventory ! i = Fin 0 \<longrightarrow>
            i < length (Quick_Ratio r) \<and> Quick_Ratio r ! i = Current_Ratio r ! i)"
proof -
  have "company_ratios bs = Inr r"
    using assms by (simp add: calculate_ratios_lookup split: sum.splits)
  from company_ratios_Inr [OF this] obtain ca cl where
    cr: "Current_Ratio r = map2 fdiv ca cl" and
    qr: "Quick_Ratio r = map2 fdiv (less_inventory bs ca) cl"
    by auto
  show ?thesis
  proof (intro conjI allI impI)
    assume "map_of (rows bs) ''Inventory'' = None"
    then show "Quick_Ratio r = Current_Ratio r"
      by (simp add: cr qr less_inventory_absent)
  next
    fix inventory i
    assume a: "map_of (rows bs) ''Inventory'' = Some inventory \<and>
            i < length (Current_Ratio r) \<and> i < length inventory \<and> inventory ! i = Fin 0"
    then have li: "less_inventory bs ca = map2 fsub ca inventory"
      by (simp add: less_inventory_def)
    from a show "i < length (Quick_Ratio r)" by (simp add: cr qr li)
    from a show "Quick_Ratio r ! i = Current_Ratio r ! i" by (simp add: cr qr li)
  qed
qed

theorem quick_equals_current_witness:
  "\<exists>r. map_of (ratios (calculate_financial_ratios trio_state)) ''SHOP'' = Some r \<and>
       Quick_Ratio r ! 0 = Current_Ratio r ! 0 \<and> Current_Ratio r ! 0 = Fin 2 \<and>
       Quick_Ratio r ! 1 \<noteq> Current_Ratio r ! 1"
proof -
  let ?r = "\<lparr>r_index = [20240930, 20240630], Current_Ratio = [Fin 2, Fin 3],
             Quick_Ratio = [Fin 2, Fin (11/5)], Debt_to_Assets = [Fin (3/4), Fin (1/2)],
             Equity_Multiplier = [Fin 4, Fin 2]\<rparr>"
  have r: "map_of (ratios (calculate_financial_ratios trio_state)) ''SHOP'' = Some ?r"
    by (simp add: calculate_ratios_lookup trio_state_fields)
       (simp add: shop_frame_def company_ratios_def loc_def less_inventory_def fsub_def truediv_def)
  have inv: "map_of (rows shop_frame) ''Inventory'' = Some [Fin 0, Fin 40]"
    by (simp add: shop_frame_def)
  from quick_equals_current [OF trio_state_fields(1,2,5) r] inv
  have "Quick_Ratio ?r ! 0 = Current_Ratio ?r ! 0"
    by simp
  with r show ?thesis by simp
qed

text \<open>
  C4. When the ratio tables are well formed the report is generated, and the section of
  an included company holds the line "Monitor short-term liquidity position" exactly
  when the Current_Ratio of its most recent period is below 2 (so not at 2.00), and the
  high-debt line exactly when the Debt_to_Assets of that period is above 0.70 (so at
  0.75).
\<close>

theorem recommendation_lines:
  assumes "company \<in> set (companies st)" and "map_of (ratios st) company = Some r"
    and "tables_ok st"
  shows "\<exists>rep sec pre post d cr da.
           generate_analysis_report now st = Inr rep \<and>
           rep = pre @ sec @ post \<and> company_section company r = Inr sec \<and>
           first_label (r_index r) = Inr d \<and>
           at_period (r_index r) (Current_Ratio r) d = Inr cr \<and>
           at_period (r_index r) (Debt_to_Assets r) d = Inr da \<and>
           (Text ''- Monitor short-term liquidity position\<newline>'' \<in> set sec) = flt cr (Fin 2) \<and>
           (Text ''- High debt ratio, monitor long-term solvency risk\<newline>'' \<in> set sec)
             = fgt da (Fin (7 / 10)) \<and>
           (cr = Fin 2 \<longrightarrow> Text ''- Monitor short-term liquidity position\<newline>'' \<notin> set sec) \<and>
           (da = Fin (3 / 4) \<longrightarrow>
              Text ''- High debt ratio, monitor long-term solvency risk\<newline>'' \<in> set sec)"
proof -
  from report_generated [OF assms(3)] obtain rep where
    g: "generate_analysis_report now st = Inr rep" ..
  from report_split [OF assms(1,2) g] obtain sec pre post where
    sec: "company_section company r = Inr sec" and rep: "rep = pre @ sec @ post" by blast
  from company_section_Inr [OF sec] obtain d cr da where
    d: "first_label (r_index r) = Inr d"
    and cr: "at_period (r_index r) (Current_Ratio r) d = Inr cr"
    and da: "at_period (r_index r) (Debt_to_Assets r) d = Inr da"
    by blast
  note m = monitor_line_iff [OF sec d cr] and h = debt_line_iff [OF sec d da]
  have "cr = Fin 2 \<longrightarrow> Text ''- Monitor short-term liquidity position\<newline>'' \<notin> set sec"
    using m by simp
  moreover have "da = Fin (3 / 4) \<longrightarrow>
      Text ''- High debt ratio, monitor long-term solvency risk\<newline>'' \<in> set sec"
    using h by (simp add: fgt_def)
  ultimately show ?thesis using g rep sec d cr da m h by blast
qed

theorem recommendation_lines_witness:
  "\<exists>rep sec pre post.
     generate_analysis_report ''2024-11-04 10:00:00'' (calculate_financial_ratios acme_state)
       = Inr rep \<and>
     rep = pre @ sec @ post \<and>
     Text ''- Monitor short-term liquidity position\<newline>'' \<notin> set sec \<and>
     Text ''- High debt ratio, monitor long-term solvency risk\<newline>'' \<in> set sec"
proof -
  let ?st = "calculate_financial_ratios acme_state"
  let ?r = "\<lparr>r_index = [20240930, 20240630], Current_Ratio = [Fin 2, Fin 3],
             Quick_Ratio = [Fin 2, Fin 3], Debt_to_Assets = [Fin (3/4), Fin (1/2)],
             Equity_Multiplier = [Fin 4, Fin 2]\<rparr>"
  have c: "''ACME'' \<in> set (companies ?st)" by (simp add: acme_state_fields)
  have r: "map_of (ratios ?st) ''ACME'' = Some ?r" by (simp add: acme_ratios)
  have ok: "tables_ok ?st"
    unfolding tables_ok_def by (simp add: acme_ratios acme_state_fields wf_table_def)
  from recommendation_lines [OF c r ok, of "''2024-11-04 10:00:00''"]
  obtain rep sec pre post d cr da where
    rep: "generate_analysis_report ''2024-11-04 10:00:00'' ?st = Inr rep" and
    f: "rep = pre @ sec @ post"
       "first_label (r_index ?r) = Inr d"
       "at_period (r_index ?r) (Current_Ratio ?r) d = Inr cr"
       "at_period (r_index ?r) (Debt_to_Assets ?r) d = Inr da"
       "cr = Fin 2 \<longrightarrow> Text ''- Monitor short-term liquidity position\<newline>'' \<notin> set sec"
       "da = Fin (3 / 4) \<longrightarrow>
          Text ''- High debt ratio, monitor long-term solvency risk\<newline>'' \<in> set sec"
    by blast
  from f(2) have d: "d = 20240930" by (simp add: first_label_def)
  from f(3,4) have "cr = Fin 2" "da = Fin (3 / 4)" by (simp_all add: d at_period_def)
  with f(1,5,6) rep show ?thesis by blast
qed

text \<open>
  C5 as stated fails. ACME has the quarters 2024-09-30 and 2024-06-30, LATE has 2024-06-30
  and 2024-03-31. The most recent common period is 2024-06-30 and both companies have
  values there, but the program reads every company at 2024-09-30, the first period of
  ACME: the lookup for LATE raises and no chart is produced.
\<close>

theorem radar_period_counterexample:
  "available_companies (calculate_financial_ratios pair_state) = [''ACME'', ''LATE''] \<and>
   spec_most_recent_common (calculate_financial_ratios pair_state) = Some 20240630 \<and>
   radar_chart_at (calculate_financial_ratios pair_state) 20240630 =
     Inr (RadarChart
       [(''ACME'', [Fin (1/2), Fin 3, Fin 3, Fin 2, Fin (1/2)]),
        (''LATE'', [Fin (1/4), Fin (3/2), Fin (3/2), Fin (4/3), Fin (1/4)])]) \<and>
   radar_chart (calculate_financial_ratios pair_state) = Inl (KeyError_period 20240930) \<and>
   plot_debt_ratio_radar (\<lambda>c. None) (calculate_financial_ratios pair_state) =
     (Inl (KeyError_period 20240930), calculate_financial_ratios pair_state)"
proof -
  let ?st = "calculate_financial_ratios pair_state"
  have 1: "spec_most_recent_common ?st = Some 20240630"
    by (simp add: spec_most_recent_common_def spec_common_periods_def pair_available
        pair_ratios has_period_def)
  have 2: "radar_chart_at ?st 20240630 =
     Inr (RadarChart
       [(''ACME'', [Fin (1/2), Fin 3, Fin 3, Fin 2, Fin (1/2)]),
        (''LATE'', [Fin (1/4), Fin (3/2), Fin (3/2), Fin (4/3), Fin (1/4)])])"
    by (simp add: radar_chart_at_def pair_available pair_ratios radar_values_def at_period_def)
  have 3: "radar_chart ?st = Inl (KeyError_period 20240930)"
    by (simp add: radar_chart_def radar_latest_date_def first_label_def radar_chart_at_def
        pair_available pair_ratios radar_values_def at_period_def)
  have 4: "plot_debt_ratio_radar (\<lambda>c. None) ?st = (Inl (KeyError_period 20240930), ?st)"
    by (simp add: plot_debt_ratio_radar_def pair_available 3)
  from pair_available 1 2 3 4 show ?thesis by blast
qed

text \<open>
  C5, amended. Every plotted company is read at the most recent period of the first
  company that has a ratio table. When every plotted company has that period, the chart
  holds one polygon per such company, in input order, with the four ratios of that
  period; it is saved when the backend accepts it; and, the table of the first company
  being most recent first, the period is the most recent one common to all of them.
\<close>

theorem radar_reads_first_latest:
  assumes "available_companies st = company # others"
    and "map_of (ratios st) company = Some r0" and "r_index r0 = d # ds"
    and all: "\<forall>c \<in> set (available_companies st).
             \<exists>r. map_of (ratios st) c = Some r \<and> wf_table r \<and> d \<in> set (r_index r)"
  shows "\<exists>ps. radar_chart st = Inr (RadarChart ps) \<and>
              map fst ps = available_companies st \<and>
              (\<forall>(c, vs) \<in> set ps.
                 \<exists>r. map_of (ratios st) c = Some r \<and> radar_values r d = Inr vs) \<and>
              (sorted (rev (r_index r0)) \<longrightarrow> spec_most_recent_common st = Some d) \<and>
              (backend (RadarChart ps) = None \<longrightarrow>
                 plot_debt_ratio_radar backend st =
                   (Inr (Some (get_plot_path st ''debt_ratio_radar.png'')),
                    write_file (get_plot_path st ''debt_ratio_radar.png'')
                      (Image (RadarChart ps)) st))"
proof -
  note chart = radar_latest_is_first [OF assms(1-3)]
  from radar_polygons_present [OF all] obtain ps where
    ps: "radar_polygons (ratios st) d (available_companies st) = Inr ps" ..
  then have rc: "radar_chart st = Inr (RadarChart ps)"
    by (simp add: chart radar_chart_at_def)
  have common: "sorted (rev (r_index r0)) \<longrightarrow> spec_most_recent_common st = Some d"
  proof
    assume "sorted (rev (r_index r0))"
    then have le: "\<forall>x \<in> set ds. x \<le> d"
      by (simp add: assms(3) sorted_append)
    from all have "\<forall>c \<in> set (available_companies st). has_period st d c"
      by (auto simp: has_period_def)
    then have "spec_common_periods st =
        d # filter (\<lambda>p. \<forall>c \<in> set (available_companies st). has_period st p c) ds"
      using assms(1-3) by (simp add: spec_common_periods_def)
    moreover have "fold max
        (filter (\<lambda>p. \<forall>c \<in> set (available_companies st). has_period st p c) ds) d = d"
      using le by (intro fold_max_bounded) simp
    ultimately show "spec_most_recent_common st = Some d"
      by (simp add: spec_most_recent_common_def)
  qed
  have saved: "backend (RadarChart ps) = None \<longrightarrow>
                 plot_debt_ratio_radar backend st =
                   (Inr (Some (get_plot_path st ''debt_ratio_radar.png'')),
                    write_file (get_plot_path st ''debt_ratio_radar.png'')
                      (Image (RadarChart ps)) st)"
    using assms(1) by (simp add: plot_debt_ratio_radar_def rc Let_def)
  from radar_polygons_Inr [OF ps] have
    names: "map fst ps = available_companies st" and
    vals: "\<forall>(c, vs) \<in> set ps.
             \<exists>r. map_of (ratios st) c = Some r \<and> radar_values r d = Inr vs"
    by simp_all
  show ?thesis
    by (intro exI [of _ ps] conjI rc names vals common saved)
qed

theorem radar_reads_first_latest_witness:
  "\<exists>ps. radar_chart (calculate_financial_ratios trio_state) = Inr (RadarChart ps) \<and>
        map fst ps = [''IDLE'', ''SHOP''] \<and>
        spec_most_recent_common (calculate_financial_ratios trio_state) = Some 20240930 \<and>
        files (snd (plot_debt_ratio_radar (\<lambda>c. None) (calculate_financial_ratios trio_state)))
          = [(''./output/plots/debt_ratio_radar.png'', Image (RadarChart ps))]"
proof -
  let ?t = "calculate_financial_ratios trio_state"
  let ?idle = "\<lparr>r_index = [20240930], Current_Ratio = [PInf], Quick_Ratio = [PInf],
           Debt_to_Assets = [Fin 0], Equity_Multiplier = [Fin 1]\<rparr>"
  have t: "map_of (ratios ?t) ''IDLE'' = Some ?idle" "r_index ?idle = [20240930]"
    by (simp_all add: trio_ratios)
  have all: "\<forall>c \<in> set (available_companies ?t).
      \<exists>r. map_of (ratios ?t) c = Some r \<and> wf_table r \<and> 20240930 \<in> set (r_index r)"
    by (simp add: trio_available trio_ratios wf_table_def)
  have srt: "sorted (rev (r_index ?idle))" by simp
  from radar_reads_first_latest [where backend = "\<lambda>c. None", OF trio_available t all]
  obtain ps where
    ps: "radar_chart ?t = Inr (RadarChart ps)" "map fst ps = available_companies ?t"
        "sorted (rev (r_index ?idle)) \<longrightarrow> spec_most_recent_common ?t = Some 20240930"
        "plot_debt_ratio_radar (\<lambda>c. None) ?t =
           (Inr (Some (get_plot_path ?t ''debt_ratio_radar.png'')),
            write_file (get_plot_path ?t ''debt_ratio_radar.png'') (Image (RadarChart ps)) ?t)"
    by auto
  from ps(3) srt have c: "spec_most_recent_common ?t = Some 20240930" by (rule mp)
  have e: "files trio_state = []" by (simp add: trio_state_def init_def)
  have f: "files (snd (plot_debt_ratio_radar (\<lambda>c. None) ?t))
          = [(''./output/plots/debt_ratio_radar.png'', Image (RadarChart ps))]"
    unfolding ps(4)
    by (simp add: get_plot_path_def plots_dir_def output_dir_def join_def trio_sheets e)
  from ps(1,2) c f show ?thesis by (auto simp: trio_available)
qed

text \<open>
  C6. When no company of the list has a ratio table, \<^verbatim>\<open>plot_debt_ratio_radar\<close> returns
  None, prints that no data is available, and writes no file.
\<close>

theorem radar_without_data:
  assumes "\<forall>company \<in> set (companies st). map_of (ratios st) company = None"
  shows "plot_debt_ratio_radar backend st =
           (Inr None, say (Print ''No data available for radar chart'') st) \<and>
         files (snd (plot_debt_ratio_radar backend st)) = files st"
proof -
  from assms have "available_companies st = []"
    by (simp add: available_companies_def filter_empty_conv)
  then show ?thesis by (simp add: plot_debt_ratio_radar_def)
qed

theorem radar_without_data_witness:
  "fst (plot_debt_ratio_radar (\<lambda>c. None) (init ''.'' [''AAPL'', ''MSFT''])) = Inr None \<and>
   files (snd (plot_debt_ratio_radar (\<lambda>c. None) (init ''.'' [''AAPL'', ''MSFT'']))) = []"
proof -
  have "\<forall>company \<in> set (companies (init ''.'' [''AAPL'', ''MSFT''])).
          map_of (ratios (init ''.'' [''AAPL'', ''MSFT''])) company = None"
    by (simp add: init_def)
  from radar_without_data [OF this, of "\<lambda>c. None"] show ?thesis
    by (simp add: init_def)
qed

text \<open>
  C7. The sections of a generated report are those of the companies that have a ratio
  table, in the order of the input list (and the report is generated whenever the
  provider's tables are rectangular). A company whose fetched table is empty has no
  balance sheet and no ratio table after the fetch and the calculation; it is in neither
  the line chart nor the radar chart, its composition chart is not attempted, it has no
  section in the report, and the run writes the same files as the run on the list
  without it.
\<close>

theorem empty_source_company_is_excluded:
  assumes "src company = Inr bs" and "empty_frame bs"
    and "st = calculate_financial_ratios (fetch_data src (init base cs))"
  shows "map_of (balance_sheets st) company = None \<and>
         map_of (ratios st) company = None \<and>
         company \<notin> fst ` set (line_series st) \<and>
         company \<notin> set (available_companies st) \<and>
         (\<forall>ps. radar_chart st = Inr (RadarChart ps) \<longrightarrow> company \<notin> fst ` set ps) \<and>
         plot_balance_sheet_composition backend company st =
           (Inr None, say (Print (''No data available for '' @ company)) st) \<and>
         (\<forall>rep. generate_analysis_report now st = Inr rep \<longrightarrow>
            report_names rep = filter (\<lambda>c. map_of (ratios st) c \<noteq> None) (companies st) \<and>
            company \<notin> set (report_names rep)) \<and>
         ((\<forall>c b. src c = Inr b \<longrightarrow> rectangular b) \<longrightarrow>
            (\<exists>rep. generate_analysis_report now st = Inr rep)) \<and>
         files (run src backend now base cs)
           = files (run src backend now base (removeAll company cs))"
proof -
  have "map_of (balance_sheets (init base cs)) company = None" by (simp add: init_def)
  from fetched_absent [where src = src and c = company, OF assms(1,2) this]
  have nb: "map_of (balance_sheets st) company = None" by (simp add: assms(3))
  have "map_of (ratios (fetch_data src (init base cs))) company = None" by (simp add: init_def)
  from calculated_absent [OF this] nb
  have nr: "map_of (ratios st) company = None" by (simp add: assms(3))
  from not_available [OF nr] have av: "company \<notin> set (available_companies st)" .
  have ls: "company \<notin> fst ` set (line_series st)"
    using av line_series_names [of st] by (metis list.set_map)
  have rd: "\<forall>ps. radar_chart st = Inr (RadarChart ps) \<longrightarrow> company \<notin> fst ` set ps"
  proof (intro allI impI)
    fix ps assume "radar_chart st = Inr (RadarChart ps)"
    from radar_chart_names [OF this] av show "company \<notin> fst ` set ps"
      by (metis list.set_map)
  qed
  have rp: "\<forall>rep. generate_analysis_report now st = Inr rep \<longrightarrow>
            report_names rep = filter (\<lambda>c. map_of (ratios st) c \<noteq> None) (companies st) \<and>
            company \<notin> set (report_names rep)"
  proof (intro allI impI)
    fix rep assume "generate_analysis_report now st = Inr rep"
    from generate_names [OF this] av
    show "report_names rep = filter (\<lambda>c. map_of (ratios st) c \<noteq> None) (companies st) \<and>
            company \<notin> set (report_names rep)"
      by (simp add: available_companies_def)
  qed
  from run_unaffected [where src = src and c = company, OF assms(1,2), of backend now base cs]
  have fl: "files (run src backend now base cs)
           = files (run src backend now base (removeAll company cs))"
    by (simp add: unaffected_def)
  have ex: "(\<forall>c b. src c = Inr b \<longrightarrow> rectangular b) \<longrightarrow>
            (\<exists>rep. generate_analysis_report now st = Inr rep)"
  proof
    assume "\<forall>c b. src c = Inr b \<longrightarrow> rectangular b"
    then have "tables_ok st"
      unfolding assms(3) by (rule pipeline_tables_ok) (simp_all add: init_def)
    then show "\<exists>rep. generate_analysis_report now st = Inr rep"
      by (rule report_generated)
  qed
  from nb nr ls av rd plot_composition_absent [OF nb] rp ex fl show ?thesis by blast
qed

theorem empty_source_company_is_excluded_witness:
  "map_of (ratios (calculate_financial_ratios
             (fetch_data solo_src (init ''.'' [''GONE'', ''SOLO'']))) ) ''GONE'' = None \<and>
   ''GONE'' \<notin> set (available_companies (calculate_financial_ratios
             (fetch_data solo_src (init ''.'' [''GONE'', ''SOLO''])))) \<and>
   (\<exists>rep. generate_analysis_report ''2024-11-04 10:00:00''
            (calculate_financial_ratios (fetch_data solo_src (init ''.'' [''GONE'', ''SOLO''])))
            = Inr rep \<and> report_names rep = [''SOLO'']) \<and>
   files (run solo_src (\<lambda>c. None) ''2024-11-04 10:00:00'' ''.'' [''GONE'', ''SOLO''])
     = files (run solo_src (\<lambda>c. None) ''2024-11-04 10:00:00'' ''.'' [''SOLO''])"
proof -
  let ?st = "calculate_financial_ratios (fetch_data solo_src (init ''.'' [''GONE'', ''SOLO'']))"
  let ?now = "''2024-11-04 10:00:00''"
  have src: "solo_src ''GONE'' = Inr \<lparr>columns = [], rows = [], dtype = Float64\<rparr>"
    by (simp add: solo_src_def)
  have emp: "empty_frame \<lparr>columns = [], rows = [], dtype = Float64\<rparr>" by (simp add: empty_frame_def)
  note t = empty_source_company_is_excluded
             [where src = solo_src and company = "''GONE''" and backend = "\<lambda>c. None"
                and now = ?now and base = "''.''" and cs = "[''GONE'', ''SOLO'']",
              OF src emp refl]
  have r: "ratios ?st = ratios (calculate_financial_ratios solo_state)"
    by (rule calculate_ratios_cong) (simp_all add: solo_fetched, simp add: solo_state_def init_def)
  have c: "companies ?st = [''GONE'', ''SOLO'']" by (simp add: init_def)
  obtain rep where rep: "generate_analysis_report ?now ?st = Inr rep"
    unfolding generate_analysis_report_def c r solo_ratios
    by (simp add: company_section_def first_label_def at_period_def average_change_def)
  from t rep have "report_names rep = filter (\<lambda>c. map_of (ratios ?st) c \<noteq> None) (companies ?st)"
    by blast
  then have names: "report_names rep = [''SOLO'']"
    unfolding c r solo_ratios by simp
  from t have 1: "map_of (ratios ?st) ''GONE'' = None"
    and 2: "''GONE'' \<notin> set (available_companies ?st)"
    and 3: "files (run solo_src (\<lambda>c. None) ?now ''.'' [''GONE'', ''SOLO''])
     = files (run solo_src (\<lambda>c. None) ?now ''.'' (removeAll ''GONE'' [''GONE'', ''SOLO'']))"
    by blast+
  from 3 have 4: "files (run solo_src (\<lambda>c. None) ?now ''.'' [''GONE'', ''SOLO''])
     = files (run solo_src (\<lambda>c. None) ?now ''.'' [''SOLO''])"
    by simp
  from 1 2 rep names 4 show ?thesis by blast
qed

text \<open>
  C8. What the code does for a company with a single period: the report is generated,
  and the trend section of the company holds the two rate lines, each with the value
  NaN, and no line saying that the trend could not be computed.
\<close>

theorem single_period_trend:
  assumes "company \<in> set (companies st)" and "map_of (ratios st) company = Some r"
    and "tables_ok st" and "length (r_index r) < 2"
  shows "\<exists>rep sec pre post a b.
           generate_analysis_report now st = Inr rep \<and>
           rep = pre @ sec @ post \<and> company_section company r = Inr sec \<and>
           sec = a @ [Text ''Trend Analysis:\<newline>'',
                      Text ''Current_Ratio Average Change Rate: '', FmtPct NaN, Text ''\<newline>'',
                      Text ''Debt_to_Assets Average Change Rate: '', FmtPct NaN, Text ''\<newline>'',
                      Text ''\<newline>'', Text ''Recommendations:\<newline>''] @ b \<and>
           Text ''Unable to calculate trends: '' \<notin> set sec"
proof -
  from report_generated [OF assms(3)] obtain rep where
    g: "generate_analysis_report now st = Inr rep" ..
  from assms(1-3) have wf: "wf_table r" by (auto simp: tables_ok_def)
  from report_split [OF assms(1,2) g] obtain sec pre post where
    sec: "company_section company r = Inr sec" and rep: "rep = pre @ sec @ post" by blast
  from company_section_Inr [OF sec] obtain d cr qr da em where
    d: "first_label (r_index r) = Inr d" and
    s: "sec = [Name company, Text '' Company Analysis\<newline>'',
             Text (replicate 30 (CHR ''-'') @ ''\<newline>''),
             Text ''Analysis Date: '', Date d, Text ''\<newline>\<newline>'',
             Text ''Key Financial Ratios:\<newline>'',
             Text ''1. Current Ratio: '', Fmt2f cr, Text ''\<newline>'',
             Text ''   - Measures short-term liquidity, 2:1 is generally considered reasonable\<newline>'',
             Text ''2. Quick Ratio: '', Fmt2f qr, Text ''\<newline>'',
             Text ''   - Measures immediate liquidity, 1:1 is generally considered reasonable\<newline>'',
             Text ''3. Debt to Assets Ratio: '', FmtPct da, Text ''\<newline>'',
             Text ''   - Measures long-term solvency, below 70% is generally considered safe\<newline>'',
             Text ''4. Equity Multiplier: '', Fmt2f em, Text ''\<newline>'',
             Text ''   - Measures financial leverage, higher values indicate higher leverage\<newline>\<newline>'',
             Text ''Trend Analysis:\<newline>'']
            @ trend_lines [(''Current_Ratio'', Current_Ratio r),
                           (''Debt_to_Assets'', Debt_to_Assets r)]
            @ [Text ''\<newline>'', Text ''Recommendations:\<newline>'']
            @ recommendations cr da
            @ [Text (''\<newline>'' @ replicate 50 (CHR ''='') @ ''\<newline>\<newline>'')]"
    by blast
  from d have "r_index r \<noteq> []" by (auto simp: first_label_def)
  with wf assms(4) have "length (Current_Ratio r) = 1" "length (Debt_to_Assets r) = 1"
    by (cases "r_index r"; simp add: wf_table_def)+
  then obtain x y where xy: "Current_Ratio r = [x]" "Debt_to_Assets r = [y]"
    by (auto simp: length_Suc_conv)
  have t: "trend_lines [(''Current_Ratio'', Current_Ratio r), (''Debt_to_Assets'', Debt_to_Assets r)]
           = [Text ''Current_Ratio Average Change Rate: '', FmtPct NaN, Text ''\<newline>'',
              Text ''Debt_to_Assets Average Change Rate: '', FmtPct NaN, Text ''\<newline>'']"
    by (simp add: xy average_change_single)
  let ?a = "[Name company, Text '' Company Analysis\<newline>'',
             Text (replicate 30 (CHR ''-'') @ ''\<newline>''),
             Text ''Analysis Date: '', Date d, Text ''\<newline>\<newline>'',
             Text ''Key Financial Ratios:\<newline>'',
             Text ''1. Current Ratio: '', Fmt2f cr, Text ''\<newline>'',
             Text ''   - Measures short-term liquidity, 2:1 is generally considered reasonable\<newline>'',
             Text ''2. Quick Ratio: '', Fmt2f qr, Text ''\<newline>'',
             Text ''   - Measures immediate liquidity, 1:1 is generally considered reasonable\<newline>'',
             Text ''3. Debt to Assets Ratio: '', FmtPct da, Text ''\<newline>'',
             Text ''   - Measures long-term solvency, below 70% is generally considered safe\<newline>'',
             Text ''4. Equity Multiplier: '', Fmt2f em, Text ''\<newline>'',
             Text ''   - Measures financial leverage, higher values indicate higher leverage\<newline>\<newline>'']"
  let ?b = "recommendations cr da
            @ [Text (''\<newline>'' @ replicate 50 (CHR ''='') @ ''\<newline>\<newline>'')]"
  have shape: "sec = ?a @ [Text ''Trend Analysis:\<newline>'',
                      Text ''Current_Ratio Average Change Rate: '', FmtPct NaN, Text ''\<newline>'',
                      Text ''Debt_to_Assets Average Change Rate: '', FmtPct NaN, Text ''\<newline>'',
                      Text ''\<newline>'', Text ''Recommendations:\<newline>''] @ ?b"
    unfolding s t by simp
  have un: "Text ''Unable to calculate trends: '' \<notin> set sec"
    unfolding s t recommendations_def rule_lines by simp
  from g rep sec shape un show ?thesis by blast
qed

theorem single_period_trend_witness:
  "\<exists>rep pre post.
     generate_analysis_report ''2024-11-04 10:00:00'' (calculate_financial_ratios solo_state)
       = Inr rep \<and>
     rep = pre @ [Text ''Trend Analysis:\<newline>'',
                  Text ''Current_Ratio Average Change Rate: '', FmtPct NaN, Text ''\<newline>'',
                  Text ''Debt_to_Assets Average Change Rate: '', FmtPct NaN, Text ''\<newline>'',
                  Text ''\<newline>'', Text ''Recommendations:\<newline>''] @ post"
proof -
  let ?st = "calculate_financial_ratios solo_state"
  let ?r = "\<lparr>r_index = [20240930], Current_Ratio = [Fin 3], Quick_Ratio = [Fin 3],
             Debt_to_Assets = [Fin (1/2)], Equity_Multiplier = [Fin 2]\<rparr>"
  have c: "''SOLO'' \<in> set (companies ?st)" by (simp add: solo_companies)
  have r: "map_of (ratios ?st) ''SOLO'' = Some ?r" by (simp add: solo_ratios)
  have ok: "tables_ok ?st"
    unfolding tables_ok_def by (simp add: solo_ratios solo_companies wf_table_def)
  have w: "length (r_index ?r) < 2" by simp
  from single_period_trend [OF c r ok w, of "''2024-11-04 10:00:00''"]
  obtain rep sec pre post a b where
    rep: "generate_analysis_report ''2024-11-04 10:00:00'' ?st = Inr rep" and
    "rep = pre @ sec @ post"
    "sec = a @ [Text ''Trend Analysis:\<newline>'',
                      Text ''Current_Ratio Average Change Rate: '', FmtPct NaN, Text ''\<newline>'',
                      Text ''Debt_to_Assets Average Change Rate: '', FmtPct NaN, Text ''\<newline>'',
                      Text ''\<newline>'', Text ''Recommendations:\<newline>''] @ b"
    by blast
  then have "rep = (pre @ a) @ [Text ''Trend Analysis:\<newline>'',
                      Text ''Current_Ratio Average Change Rate: '', FmtPct NaN, Text ''\<newline>'',
                      Text ''Debt_to_Assets Average Change Rate: '', FmtPct NaN, Text ''\<newline>'',
                      Text ''\<newline>'', Text ''Recommendations:\<newline>''] @ (b @ post)"
    by simp
  with rep show ?thesis by blast
qed

text \<open>
  C9 as stated fails. With ACME and LATE the lookup of LATE at 2024-09-30 raises inside
  \<^verbatim>\<open>plot_debt_ratio_radar\<close>, which has no handler of its own. The error reaches the
  handler of \<^verbatim>\<open>main\<close>: the line chart is the only file written, no composition chart
  is drawn and no report is generated.
\<close>

theorem radar_failure_ends_run:
  "files (run pair_src (\<lambda>c. None) ''2024-11-04 10:00:00'' ''.'' [''ACME'', ''LATE'']) =
     [(''./output/plots/current_ratio_comparison.png'',
       Image (LineChart
         [(''ACME'', [20240930, 20240630], [Fin 2, Fin 3]),
          (''LATE'', [20240630, 20240331], [Fin (3/2), Fin 2])]))] \<and>
   PrintErr ''\<newline>Program error: '' (KeyError_period 20240930)
     \<in> set (stdout (run pair_src (\<lambda>c. None) ''2024-11-04 10:00:00'' ''.'' [''ACME'', ''LATE'']))"
proof -
  let ?s1 = "fetch_data pair_src (say (Print ''\<newline>Fetching financial data...'')
               (say (Print ''Initializing analyzer...'') (init ''.'' [''ACME'', ''LATE''])))"
  let ?s2 = "calculate_financial_ratios (say (Print ''\<newline>Calculating financial ratios...'') ?s1)"
  let ?chart = "LineChart
         [(''ACME'', [20240930, 20240630], [Fin 2, Fin 3]),
          (''LATE'', [20240630, 20240331], [Fin (3/2), Fin 2])]"
  let ?path = "''./output/plots/current_ratio_comparison.png''"
  let ?s3 = "say (Print (''  Saved: '' @ ?path))
         (write_file ?path (Image ?chart)
            (say (Print ''- Generating current ratio comparison...'')
               (say (Print ''\<newline>Generating visualizations...'') ?s2)))"
  have r: "ratios ?s2 = ratios (calculate_financial_ratios pair_state)"
    by (rule calculate_ratios_cong) (simp_all add: pair_fetched, simp add: pair_state_def init_def)
  have c: "companies ?s2 = [''ACME'', ''LATE'']" by (simp add: init_def)
  have b: "base_path ?s2 = ''.''" by (simp add: init_def)
  have ls: "line_series ?s2 = [(''ACME'', [20240930, 20240630], [Fin 2, Fin 3]),
          (''LATE'', [20240630, 20240331], [Fin (3/2), Fin 2])]"
    unfolding line_series_def c r pair_ratios by simp
  have p: "get_plot_path ?s2 ''current_ratio_comparison.png'' = ?path"
    unfolding get_plot_path_def plots_dir_def output_dir_def b by (simp add: join_def)
  have av: "available_companies ?s2 = [''ACME'', ''LATE'']"
    unfolding available_companies_def c r pair_ratios by simp
  have lat: "radar_latest_date ?s2 = Inr 20240930"
    unfolding radar_latest_date_def av r pair_ratios by (simp add: first_label_def)
  have rc: "radar_chart ?s2 = Inl (KeyError_period 20240930)"
    unfolding radar_chart_def lat radar_chart_at_def av r pair_ratios
    by (simp add: radar_values_def at_period_def)
  have 1: "run pair_src (\<lambda>c. None) ''2024-11-04 10:00:00'' ''.'' [''ACME'', ''LATE'']
      = radar_step (\<lambda>c. None) ''2024-11-04 10:00:00'' ?s3"
    unfolding run_def Let_def by (subst line_step_drawn) (simp_all add: ls p)
  have 2: "radar_step (\<lambda>c. None) ''2024-11-04 10:00:00'' ?s3 =
     top_level_handler (KeyError_period 20240930)
       (say (Print ''- Generating financial ratios radar chart...'') ?s3)"
    by (rule radar_step_raised) (simp_all add: av rc)
  show ?thesis
    unfolding 1 2 by (simp add: init_def)
qed

text \<open>
  C9, amended. On a state whose balance sheets all have a column (the fetcher stores no
  empty frame), the loop over the composition charts never raises, whatever the backend
  does: each company's chart is saved or its failure is printed, and the report step
  runs afterwards on the same ratio table and writes the report. A failure raised while
  the line chart or the radar chart is built is not caught there: it reaches the handler
  of \<^verbatim>\<open>main\<close>, which prints it, and no further file is written.
\<close>

theorem composition_failures_isolated:
  assumes "\<forall>bs \<in> snd ` set (balance_sheets st). columns bs \<noteq> []"
  shows "(\<exists>st'. composition_loop backend (companies st)
                   (say (Print ''- Generating balance sheet composition charts...'') st)
                 = (Inr (), st') \<and> same_analysis st st' \<and>
               (\<forall>company \<in> set (companies st). composition_settled backend st' company) \<and>
               composition_step backend now st = report_step now st') \<and>
         (\<forall>rep. generate_analysis_report now st = Inr rep \<longrightarrow>
            map_of (files (composition_step backend now st))
              (get_output_path st ''financial_analysis_report.txt'') = Some (Document rep)) \<and>
         (\<forall>e. available_companies st \<noteq> [] \<and>
              (radar_chart st = Inl e \<or> (\<exists>c. radar_chart st = Inr c \<and> backend c = Some e)) \<longrightarrow>
            files (radar_step backend now st) = files st \<and>
            PrintErr ''\<newline>Program error: '' e \<in> set (stdout (radar_step backend now st))) \<and>
         (\<forall>e. backend (LineChart (line_series st)) = Some e \<longrightarrow>
            files (line_step backend now st) = files st \<and>
            PrintErr ''\<newline>Program error: '' e \<in> set (stdout (line_step backend now st)))"
proof -
  let ?st0 = "say (Print ''- Generating balance sheet composition charts...'') st"
  from assms have "\<forall>bs \<in> snd ` set (balance_sheets ?st0). columns bs \<noteq> []" by simp
  from composition_loop_runs [OF this, of backend "companies st"] obtain st' where
    loop: "composition_loop backend (companies st) ?st0 = (Inr (), st')"
    and same: "same_analysis ?st0 st'"
    and settled: "\<forall>c \<in> set (companies st). composition_settled backend st' c"
    by blast
  from same have same': "same_analysis st st'" by (simp add: same_analysis_def)
  have step: "composition_step backend now st = report_step now st'"
    by (simp add: composition_step_def Let_def loop)
  have a: "\<exists>st'. composition_loop backend (companies st) ?st0 = (Inr (), st') \<and>
               same_analysis st st' \<and>
               (\<forall>company \<in> set (companies st). composition_settled backend st' company) \<and>
               composition_step backend now st = report_step now st'"
    using loop same' settled step by blast
  have b: "\<forall>rep. generate_analysis_report now st = Inr rep \<longrightarrow>
            map_of (files (composition_step backend now st))
              (get_output_path st ''financial_analysis_report.txt'') = Some (Document rep)"
  proof (intro allI impI)
    fix rep assume "generate_analysis_report now st = Inr rep"
    then have "generate_analysis_report now st' = Inr rep"
      by (simp add: generate_same_analysis [OF same'])
    from report_step_written [OF this] show
      "map_of (files (composition_step backend now st))
         (get_output_path st ''financial_analysis_report.txt'') = Some (Document rep)"
      by (simp add: step same_analysis_path [OF same'])
  qed
  have c: "\<forall>e. available_companies st \<noteq> [] \<and>
              (radar_chart st = Inl e \<or> (\<exists>c. radar_chart st = Inr c \<and> backend c = Some e)) \<longrightarrow>
            files (radar_step backend now st) = files st \<and>
            PrintErr ''\<newline>Program error: '' e \<in> set (stdout (radar_step backend now st))"
    by (auto simp: radar_step_raised radar_step_backend_raised)
  have d: "\<forall>e. backend (LineChart (line_series st)) = Some e \<longrightarrow>
            files (line_step backend now st) = files st \<and>
            PrintErr ''\<newline>Program error: '' e \<in> set (stdout (line_step backend now st))"
    by (simp add: line_step_raised)
  from a b c d show ?thesis by blast
qed

theorem composition_failures_isolated_witness:
  "\<exists>st' rep.
     composition_loop (\<lambda>c. None) [''IDLE'', ''BARE'', ''SHOP'']
        (say (Print ''- Generating balance sheet composition charts...'')
           (calculate_financial_ratios trio_state)) = (Inr (), st') \<and>
     PrintErr ''Error plotting balance sheet composition for IDLE: ''
        (KeyError ''Total Non Current Assets'') \<in> set (stdout st') \<and>
     map_of (files st') ''./output/plots/SHOP_balance_sheet_composition.png'' =
       Some (Image (PieCharts ''SHOP'' 20240930
            [(''Current Assets'', Fin 200), (''Non-current Assets'', Fin 800)]
            [(''Current Liabilities'', Fin 100), (''Non-current Liabilities'', Fin 650),
             (''Shareholders'' @ [CHR 0x27] @ '' Equity'', Fin 250)])) \<and>
     generate_analysis_report ''2024-11-04 10:00:00'' (calculate_financial_ratios trio_state)
       = Inr rep \<and>
     map_of (files (composition_step (\<lambda>c. None) ''2024-11-04 10:00:00''
                      (calculate_financial_ratios trio_state)))
       ''./output/financial_analysis_report.txt'' = Some (Document rep)"
proof -
  let ?st = "calculate_financial_ratios trio_state"
  let ?now = "''2024-11-04 10:00:00''"
  have ne: "\<forall>bs \<in> snd ` set (balance_sheets ?st). columns bs \<noteq> []"
    by (simp add: trio_sheets trio_columns)
  note t = composition_failures_isolated [OF ne, of "\<lambda>c. None" ?now]
  from conjunct1 [OF t] obtain st' where
    loop: "composition_loop (\<lambda>c. None) (companies ?st)
             (say (Print ''- Generating balance sheet composition charts...'') ?st) = (Inr (), st')"
    and same: "same_analysis ?st st'"
    and settled: "\<forall>company \<in> set (companies ?st). composition_settled (\<lambda>c. None) st' company"
    by blast
  from same have fields: "balance_sheets st' = balance_sheets trio_state" "base_path st' = ''.''"
    by (simp_all add: same_analysis_def trio_sheets)
  from settled have "composition_settled (\<lambda>c. None) st' ''IDLE''"
    by (simp add: trio_companies)
  then have idle: "PrintErr ''Error plotting balance sheet composition for IDLE: ''
        (KeyError ''Total Non Current Assets'') \<in> set (stdout st')"
    by (simp add: composition_settled_def fields trio_sheets trio_columns first_label_def
        idle_composition)
  from settled have "composition_settled (\<lambda>c. None) st' ''SHOP''"
    by (simp add: trio_companies)
  then have shop: "map_of (files st') ''./output/plots/SHOP_balance_sheet_composition.png'' =
       Some (Image (PieCharts ''SHOP'' 20240930
            [(''Current Assets'', Fin 200), (''Non-current Assets'', Fin 800)]
            [(''Current Liabilities'', Fin 100), (''Non-current Liabilities'', Fin 650),
             (''Shareholders'' @ [CHR 0x27] @ '' Equity'', Fin 250)]))"
    by (simp add: composition_settled_def fields(1) trio_sheets(1) trio_columns first_label_def
        shop_composition get_plot_path_def plots_dir_def output_dir_def join_def fields(2))
  obtain rep where rep: "generate_analysis_report ?now ?st = Inr rep"
    by (simp add: generate_analysis_report_def trio_ratios trio_companies company_section_def
        first_label_def at_period_def average_change_def)
  from conjunct1 [OF conjunct2 [OF t]] rep
  have "map_of (files (composition_step (\<lambda>c. None) ?now ?st))
          (get_output_path ?st ''financial_analysis_report.txt'') = Some (Document rep)"
    by blast
  then have written: "map_of (files (composition_step (\<lambda>c. None) ?now ?st))
       ''./output/financial_analysis_report.txt'' = Some (Document rep)"
    by (simp add: get_output_path_def output_dir_def join_def trio_sheets)
  from loop idle shop rep written show ?thesis
    by (auto simp: trio_companies)
qed

text \<open>
  C10. \<^verbatim>\<open>plot_balance_sheet_composition\<close> does not read the ratio table: replacing the
  table changes neither its result nor what it prints and writes. A company without a
  balance sheet gets the message that no data is available; a company with one gets its
  chart attempted, saved or its error printed. A company without a ratio table is in
  neither the line chart, the radar chart nor the report.
\<close>

theorem composition_reads_balance_sheets_only:
  "plot_balance_sheet_composition backend company (st\<lparr>ratios := rs\<rparr>) =
     (fst (plot_balance_sheet_composition backend company st),
      (snd (plot_balance_sheet_composition backend company st))\<lparr>ratios := rs\<rparr>) \<and>
   (map_of (balance_sheets st) company = None \<longrightarrow>
      plot_balance_sheet_composition backend company st =
        (Inr None, say (Print (''No data available for '' @ company)) st)) \<and>
   (\<forall>bs d. map_of (balance_sheets st) company = Some bs \<and> first_label (columns bs) = Inr d \<longrightarrow>
      plot_balance_sheet_composition backend company st =
        (case composition_chart backend company bs d of
           Inr c \<Rightarrow>
             (Inr (Some (get_plot_path st (company @ ''_balance_sheet_composition.png''))),
              write_file (get_plot_path st (company @ ''_balance_sheet_composition.png''))
                (Image c) st)
         | Inl e \<Rightarrow>
             (Inr None,
              say (PrintItems (index_labels bs))
                (say (Print ''Available balance sheet items:'')
                   (say (PrintErr (''Error plotting balance sheet composition for ''
                           @ company @ '': '') e) st))))) \<and>
   (map_of (ratios st) company = None \<longrightarrow>
      company \<notin> fst ` set (line_series st) \<and>
      company \<notin> set (available_companies st) \<and>
      (\<forall>ps. radar_chart st = Inr (RadarChart ps) \<longrightarrow> company \<notin> fst ` set ps) \<and>
      (\<forall>now rep. generate_analysis_report now st = Inr rep \<longrightarrow>
         company \<notin> set (report_names rep)))"
proof (intro conjI impI allI)
  show "plot_balance_sheet_composition backend company (st\<lparr>ratios := rs\<rparr>) =
     (fst (plot_balance_sheet_composition backend company st),
      (snd (plot_balance_sheet_composition backend company st))\<lparr>ratios := rs\<rparr>)"
    by (rule composition_ratios_update)
next
  assume "map_of (balance_sheets st) company = None"
  then show "plot_balance_sheet_composition backend company st =
        (Inr None, say (Print (''No data available for '' @ company)) st)"
    by (simp add: plot_balance_sheet_composition_def)
next
  fix bs d
  assume "map_of (balance_sheets st) company = Some bs \<and> first_label (columns bs) = Inr d"
  then show "plot_balance_sheet_composition backend company st =
        (case composition_chart backend company bs d of
           Inr c \<Rightarrow>
             (Inr (Some (get_plot_path st (company @ ''_balance_sheet_composition.png''))),
              write_file (get_plot_path st (company @ ''_balance_sheet_composition.png''))
                (Image c) st)
         | Inl e \<Rightarrow>
             (Inr None,
              say (PrintItems (index_labels bs))
                (say (Print ''Available balance sheet items:'')
                   (say (PrintErr (''Error plotting balance sheet composition for ''
                           @ company @ '': '') e) st))))"
    by (simp add: plot_balance_sheet_composition_def Let_def split: sum.splits)
next
  assume none: "map_of (ratios st) company = None"
  from not_available [OF none] show av: "company \<notin> set (available_companies st)" .
  from av show "company \<notin> fst ` set (line_series st)"
    using line_series_names [of st] by (metis list.set_map)
  {
    fix ps assume "radar_chart st = Inr (RadarChart ps)"
    from radar_chart_names [OF this] av show "company \<notin> fst ` set ps"
      by (metis list.set_map)
  }
  {
    fix now rep assume "generate_analysis_report now st = Inr rep"
    from generate_names [OF this] av show "company \<notin> set (report_names rep)"
      by simp
  }
qed

theorem composition_reads_balance_sheets_only_witness:
  "map_of (ratios (calculate_financial_ratios trio_state)) ''BARE'' = None \<and>
   ''BARE'' \<notin> set (available_companies (calculate_financial_ratios trio_state)) \<and>
   ''BARE'' \<notin> fst ` set (line_series (calculate_financial_ratios trio_state)) \<and>
   plot_balance_sheet_composition (\<lambda>c. None) ''BARE'' (calculate_financial_ratios trio_state) =
     (Inr None,
      say (PrintItems [''Current Assets'', ''Current Liabilities'', ''Total Assets'',
                       ''Total Liabilities Net Minority Interest''])
        (say (Print ''Available balance sheet items:'')
           (say (PrintErr ''Error plotting balance sheet composition for BARE: ''
                   (KeyError ''Total Non Current Assets''))
              (calculate_financial_ratios trio_state))))"
proof -
  let ?st = "calculate_financial_ratios trio_state"
  note t = composition_reads_balance_sheets_only
             [where backend = "\<lambda>c. None" and company = "''BARE''" and st = ?st and rs = "[]"]
  have none: "map_of (ratios ?st) ''BARE'' = None" by (simp add: trio_ratios)
  have bs: "map_of (balance_sheets ?st) ''BARE'' = Some bare_frame \<and>
            first_label (columns bare_frame) = Inr 20240930"
    by (simp add: trio_sheets trio_columns first_label_def)
  have ch: "composition_chart (\<lambda>c. None) ''BARE'' bare_frame 20240930
     = Inl (KeyError ''Total Non Current Assets'')"
    by (simp add: composition_chart_def cell_def loc_def at_period_def bare_frame_def)
  have il: "index_labels bare_frame = [''Current Assets'', ''Current Liabilities'',
      ''Total Assets'', ''Total Liabilities Net Minority Interest'']"
    by (simp add: index_labels_def bare_frame_def)
  from t none have 1: "''BARE'' \<notin> set (available_companies ?st)"
      "''BARE'' \<notin> fst ` set (line_series ?st)"
    by blast+
  from t bs have "plot_balance_sheet_composition (\<lambda>c. None) ''BARE'' ?st =
        (case composition_chart (\<lambda>c. None) ''BARE'' bare_frame 20240930 of
           Inr c \<Rightarrow>
             (Inr (Some (get_plot_path ?st (''BARE'' @ ''_balance_sheet_composition.png''))),
              write_file (get_plot_path ?st (''BARE'' @ ''_balance_sheet_composition.png''))
                (Image c) ?st)
         | Inl e \<Rightarrow>
             (Inr None,
              say (PrintItems (index_labels bare_frame))
                (say (Print ''Available balance sheet items:'')
                   (say (PrintErr (''Error plotting balance sheet composition for ''
                           @ ''BARE'' @ '': '') e) ?st))))"
    by blast
  then have 2: "plot_balance_sheet_composition (\<lambda>c. None) ''BARE'' ?st =
     (Inr None,
      say (PrintItems [''Current Assets'', ''Current Liabilities'', ''Total Assets'',
                       ''Total Liabilities Net Minority Interest''])
        (say (Print ''Available balance sheet items:'')
           (say (PrintErr ''Error plotting balance sheet composition for BARE: ''
                   (KeyError ''Total Non Current Assets'')) ?st)))"
    by (simp add: ch il)
  from none 1 2 show ?thesis by blast
qed

end
